theory Spec2Isabelle
  imports Main
begin

section \<open>Python values\<close>

text \<open>
  A Python \<open>str\<close> is a sequence of Unicode code points; slicing (\<open>s[:80]\<close>) and
  \<open>strip\<close> count code points, not bytes. A string of the model is therefore a list of
  code points, and \<open>str\<close> turns an ASCII literal of the theory into one.
\<close>

type_synonym pystr = "nat list"

type_synonym bytes = "nat list"

definition str :: "string \<Rightarrow> pystr" where
  "str s = map of_char s"

text \<open>
  The values that \<open>response.json()\<close> produces and that a request body holds. A Python
  \<open>dict\<close> keeps its keys in insertion order, so an object is an association list.
  \<open>JNull\<close> is Python's \<open>None\<close>; \<open>JFloat\<close> carries the bit pattern of a double,
  which no function of this program inspects.
\<close>

datatype json =
    JNull
  | JBool bool
  | JInt int
  | JFloat nat
  | JStr pystr
  | JList "json list"
  | JObj "(pystr \<times> json) list"

type_synonym dict = "(pystr \<times> json) list"

text \<open>\<open>d[k] = v\<close>: an existing key keeps its position, a new key goes last.\<close>

fun dict_set :: "pystr \<Rightarrow> json \<Rightarrow> dict \<Rightarrow> dict" where
  "dict_set k v [] = [(k, v)]"
| "dict_set k v ((k', v') # d) =
     (if k' = k then (k, v) # d else (k', v') # dict_set k v d)"

subsection \<open>Exceptions\<close>

text \<open>
  The instances of \<open>Exception\<close> that the call chain can raise, by the class that decides
  which \<open>except\<close> clause catches them, with the text \<open>str(e)\<close>.
  \<open>ConnectionError\<close>, \<open>Timeout\<close>, \<open>HTTPError\<close> and \<open>RequestsJSONDecodeError\<close>
  (\<open>requests.exceptions.JSONDecodeError\<close>, raised by \<open>response.json()\<close> since
  requests 2.27) derive from \<open>requests.exceptions.RequestException\<close>;
  \<open>ValueError\<close> (which \<open>json.JSONDecodeError\<close> derives from, raised by
  \<open>response.json()\<close> before requests 2.27), \<open>OSError\<close>, \<open>AttributeError\<close>
  and \<open>OtherException\<close> do not. Signals that are no \<open>Exception\<close>
  (\<open>KeyboardInterrupt\<close>, \<open>SystemExit\<close>) are outside the model.
\<close>

datatype exn_class =
    RequestException
  | ConnectionError
  | Timeout
  | HTTPError
  | RequestsJSONDecodeError
  | ValueError
  | OSError
  | AttributeError
  | OtherException

datatype exn = Exn exn_class pystr

fun exn_text :: "exn \<Rightarrow> pystr" where
  "exn_text (Exn c t) = t"

text \<open>\<open>isinstance(e, requests.exceptions.RequestException)\<close>\<close>

fun is_RequestException :: "exn \<Rightarrow> bool" where
  "is_RequestException (Exn c t) =
     (c = RequestException \<or> c = ConnectionError \<or> c = Timeout \<or> c = HTTPError
      \<or> c = RequestsJSONDecodeError)"

subsection \<open>String operations\<close>

text \<open>\<open>str.isspace\<close> of one code point (CPython's \<open>_PyUnicode_IsWhitespace\<close>).\<close>

definition isspace :: "nat \<Rightarrow> bool" where
  "isspace c =
     ((9 \<le> c \<and> c \<le> 13) \<or> (28 \<le> c \<and> c \<le> 32) \<or> c = 133 \<or> c = 160 \<or> c = 5760
      \<or> (8192 \<le> c \<and> c \<le> 8202) \<or> c = 8232 \<or> c = 8233 \<or> c = 8239 \<or> c = 8287
      \<or> c = 12288)"

text \<open>\<open>s.strip()\<close>\<close>

definition strip :: "pystr \<Rightarrow> pystr" where
  "strip s = rev (dropWhile isspace (rev (dropWhile isspace s)))"

text \<open>\<open>sep.join(xs)\<close>\<close>

fun join :: "pystr \<Rightarrow> pystr list \<Rightarrow> pystr" where
  "join sep [] = []"
| "join sep [x] = x"
| "join sep (x # y # ys) = x @ sep @ join sep (y # ys)"

text \<open>
  \<open>s.upper()\<close>, code point by code point. The table is exact on every code point whose
  upper-case form consists of the letters A to Z: the letters a to z, the letters A to Z
  themselves, U+00DF (SS), U+0131 (I), U+017F (S) and the ligatures U+FB00 to U+FB06
  (FF, FI, FL, FFI, FFL, ST, ST). Any other code point is left as it is; its real
  upper-case form, like the code point itself, has a code point outside A to Z, so the
  comparisons of \<open>method.upper()\<close> with \<open>POST\<close>, \<open>PUT\<close>, \<open>PATCH\<close> and \<open>GET\<close> come out
  as in Python for every method string.
\<close>

definition upper_char :: "nat \<Rightarrow> pystr" where
  "upper_char c =
     (if 97 \<le> c \<and> c \<le> 122 then [c - 32]
      else if c = 223 then [83, 83]
      else if c = 305 then [73]
      else if c = 383 then [83]
      else if c = 64256 then [70, 70]
      else if c = 64257 then [70, 73]
      else if c = 64258 then [70, 76]
      else if c = 64259 then [70, 70, 73]
      else if c = 64260 then [70, 70, 76]
      else if c = 64261 \<or> c = 64262 then [83, 84]
      else [c])"

definition upper :: "pystr \<Rightarrow> pystr" where
  "upper s = concat (map upper_char s)"

text \<open>\<open>os.path.basename(p)\<close> of \<open>posixpath\<close>: what follows the last slash.\<close>

definition basename :: "pystr \<Rightarrow> pystr" where
  "basename p = rev (takeWhile (\<lambda>c. c \<noteq> 47) (rev p))"

text \<open>\<open>type(v).__name__\<close> of a decoded value.\<close>

fun type_name :: "json \<Rightarrow> pystr" where
  "type_name JNull = str ''NoneType''"
| "type_name (JBool b) = str ''bool''"
| "type_name (JInt i) = str ''int''"
| "type_name (JFloat x) = str ''float''"
| "type_name (JStr s) = str ''str''"
| "type_name (JList xs) = str ''list''"
| "type_name (JObj d) = str ''dict''"

text \<open>
  \<open>obj.get(key)\<close>: on a dict the value, or \<open>None\<close> for a missing key; any other
  decoded value has no attribute \<open>get\<close>, and the \<open>AttributeError\<close> names its type
  between single quotes (code point 39).
\<close>

fun py_get :: "json \<Rightarrow> pystr \<Rightarrow> exn + json" where
  "py_get (JObj d) k = Inr (case map_of d k of None \<Rightarrow> JNull | Some v \<Rightarrow> v)"
| "py_get v k =
     Inl (Exn AttributeError
            ([39] @ type_name v @ [39] @ str '' object has no attribute '' @ [39]
             @ str ''get'' @ [39]))"

section \<open>The world: remote API, file system, heap and observable effects\<close>

text \<open>
  One HTTP call as the program issues it: through the client's session
  (\<open>self.session.request\<close>) or through the bare \<open>requests.post\<close>, with the keyword
  arguments it passes; an argument that is not passed is \<open>None\<close>.
\<close>

record http_call =
  c_session :: bool
  c_method :: pystr
  c_url :: json
  c_headers :: "(pystr \<times> pystr) list option"
  c_json :: "json option"
  c_params :: "dict option"
  c_files :: "(pystr \<times> pystr \<times> bytes \<times> pystr) list option"
  c_timeout :: "nat option"

datatype event =
    Http http_call
  | Sleep int
  | Open pystr

text \<open>
  A response object of the library: its status code, the text that
  \<open>raise_for_status\<close> puts into its \<open>HTTPError\<close>, and what \<open>json()\<close> does (the
  decoded body, or the failure it raises).
\<close>

record response =
  status_code :: nat
  http_error_text :: pystr
  json_result :: "exn + json"

datatype outcome = Raises exn | Returns response

text \<open>\<open>response.raise_for_status()\<close>: raises for the statuses 400 to 599.\<close>

definition raise_for_status :: "response \<Rightarrow> exn option" where
  "raise_for_status r =
     (if 400 \<le> status_code r \<and> status_code r < 600
      then Some (Exn HTTPError (http_error_text r)) else None)"

text \<open>
  The world holds the environment (\<open>backend\<close>: the outcome of the n-th HTTP call;
  \<open>fs\<close>: what \<open>open(path, "rb")\<close> does), the heap of dict objects (a body map is passed
  by reference and mutated in place), and the trace of effects in the order they happen.
  Log records are not traced. The file is closed when the \<open>with\<close> block is left; the
  close is not traced either.
\<close>

record world =
  backend :: "nat \<Rightarrow> outcome"
  fs :: "pystr \<Rightarrow> exn + bytes"
  heap :: "nat \<Rightarrow> dict"
  next_addr :: nat
  calls :: nat
  trace :: "event list"

definition emit :: "event \<Rightarrow> world \<Rightarrow> world" where
  "emit ev w = w\<lparr>trace := trace w @ [ev]\<rparr>"

text \<open>A dict display \<open>{...}\<close> creates a new object.\<close>

definition alloc :: "dict \<Rightarrow> world \<Rightarrow> nat \<times> world" where
  "alloc d w =
     (next_addr w, w\<lparr>heap := (heap w)(next_addr w := d), next_addr := Suc (next_addr w)\<rparr>)"

text \<open>Issuing one HTTP call: the library raises or returns a response.\<close>

definition http :: "http_call \<Rightarrow> world \<Rightarrow> (exn + response) \<times> world" where
  "http c w =
     (let w' = (emit (Http c) w)\<lparr>calls := Suc (calls w)\<rparr>
      in case backend w (calls w) of
           Raises e \<Rightarrow> (Inl e, w')
         | Returns r \<Rightarrow> (Inr r, w'))"

section \<open>tiktok\_api.py: class TikTokAPI\<close>

record TikTokAPI =
  api_key :: pystr
  api_secret :: pystr

definition BASE_URL :: pystr where
  "BASE_URL = str ''https://open.tiktokapis.com/v2''"

definition get_headers :: "TikTokAPI \<Rightarrow> (pystr \<times> pystr) list" where
  "get_headers self =
     [(str ''Content-Type'', str ''application/json''),
      (str ''Authorization'', str ''Bearer '' @ api_key self),
      (str ''X-API-Key'', api_key self)]"

text \<open>The arguments of \<open>self.session.request(...)\<close> in \<open>_make_request\<close>.\<close>

definition session_request ::
  "pystr \<Rightarrow> pystr \<Rightarrow> (pystr \<times> pystr) list \<Rightarrow> dict \<Rightarrow> dict option \<Rightarrow> http_call" where
  "session_request method url headers data params =
     \<lparr>c_session = True,
      c_method = method,
      c_url = JStr url,
      c_headers = Some headers,
      c_json = (if upper method \<in> set [str ''POST'', str ''PUT'', str ''PATCH'']
                then Some (JObj data) else None),
      c_params = (if upper method = str ''GET'' then params else None),
      c_files = None,
      c_timeout = Some 30\<rparr>"

text \<open>
  The body of the \<open>try\<close> block: the request, \<open>raise_for_status\<close>, \<open>json()\<close>.
\<close>

definition try_request :: "http_call \<Rightarrow> world \<Rightarrow> (exn + json) \<times> world" where
  "try_request c w =
     (case http c w of
        (Inl e, w1) \<Rightarrow> (Inl e, w1)
      | (Inr r, w1) \<Rightarrow>
          (case raise_for_status r of
             Some e \<Rightarrow> (Inl e, w1)
           | None \<Rightarrow> (json_result r, w1)))"

text \<open>
  The \<open>while attempt < retries\<close> loop. \<open>data\<close> is the address of the body map.
  Leaving the loop without a \<open>return\<close> returns \<open>None\<close>.
\<close>

function request_loop ::
  "pystr \<Rightarrow> pystr \<Rightarrow> (pystr \<times> pystr) list \<Rightarrow> nat \<Rightarrow> dict option \<Rightarrow> int \<Rightarrow> int \<Rightarrow> world
     \<Rightarrow> (exn + json) \<times> world" where
  "request_loop method url headers data params retries attempt w =
     (if attempt < retries then
        (case try_request (session_request method url headers (heap w data) params) w of
           (Inr v, w1) \<Rightarrow> (Inr v, w1)
         | (Inl e, w1) \<Rightarrow>
             (if is_RequestException e then
                (if attempt + 1 \<ge> retries then (Inl e, w1)
                 else request_loop method url headers data params retries (attempt + 1)
                        (emit (Sleep (2 ^ nat (attempt + 1))) w1))
              else (Inl e, w1)))
      else (Inr JNull, w))"
  by pat_completeness auto
termination
  by (relation "measure (\<lambda>(m, u, h, d, p, retries, attempt, w). nat (retries - attempt))")
     auto

declare request_loop.simps [simp del]

definition make_request ::
  "TikTokAPI \<Rightarrow> pystr \<Rightarrow> pystr \<Rightarrow> nat option \<Rightarrow> dict option \<Rightarrow> int \<Rightarrow> world
     \<Rightarrow> (exn + json) \<times> world" where
  "make_request self method endpoint data params retries w =
     (let url = BASE_URL @ endpoint;
          headers = get_headers self;
          (data, w1) = (case data of None \<Rightarrow> alloc [] w | Some a \<Rightarrow> (a, w));
          w2 = w1\<lparr>heap := (heap w1)
                 (data := dict_set (str ''api_secret'') (JStr (api_secret self)) (heap w1 data))\<rparr>
      in request_loop method url headers data params retries 0 w2)"

text \<open>
  \<open>post_video\<close>, lines 112 to 117: the hashtags rendered and appended, the result
  stripped.
\<close>

definition full_caption :: "pystr \<Rightarrow> pystr list \<Rightarrow> pystr" where
  "full_caption caption hashtags =
     (let hashtag_str = join (str '' '') (map (\<lambda>tag. str ''#'' @ tag) hashtags)
      in strip (caption @ str '' '' @ hashtag_str))"

text \<open>The dict display of \<open>post_video\<close>, lines 119 to 128.\<close>

definition post_video_data :: "json \<Rightarrow> pystr \<Rightarrow> dict" where
  "post_video_data video_url caption =
     [(str ''video_url'', video_url),
      (str ''caption'', JStr caption),
      (str ''post_info'', JObj
         [(str ''title'', JStr (take 80 caption)),
          (str ''disable_comment'', JBool False),
          (str ''disable_duet'', JBool False),
          (str ''disable_stitch'', JBool False)])]"

text \<open>
  \<open>video_url\<close> is whatever the caller passes: \<open>post_video_file\<close> passes the value
  found in the init-upload response, which need not be a string.
\<close>

definition post_video ::
  "TikTokAPI \<Rightarrow> json \<Rightarrow> pystr \<Rightarrow> pystr list option \<Rightarrow> world \<Rightarrow> (exn + json) \<times> world" where
  "post_video self video_url caption hashtags w =
     (let hashtags = (case hashtags of None \<Rightarrow> [] | Some h \<Rightarrow> h);
          (d, w1) = alloc (post_video_data video_url (full_caption caption hashtags)) w
      in make_request self (str ''POST'') (str ''/post/publish/video/url'') (Some d) None 3 w1)"

text \<open>The arguments of \<open>requests.post(upload_url, files=files)\<close> in \<open>_upload_video\<close>.\<close>

definition requests_post ::
  "json \<Rightarrow> (pystr \<times> pystr \<times> bytes \<times> pystr) list \<Rightarrow> http_call" where
  "requests_post url files =
     \<lparr>c_session = False,
      c_method = str ''POST'',
      c_url = url,
      c_headers = None,
      c_json = None,
      c_params = None,
      c_files = Some files,
      c_timeout = None\<rparr>"

text \<open>\<open>_upload_video\<close>, lines 164 to 172: the init-upload request.\<close>

definition init_upload :: "TikTokAPI \<Rightarrow> pystr \<Rightarrow> world \<Rightarrow> (exn + json) \<times> world" where
  "init_upload self video_path w =
     (let (upload_data, w1) =
            alloc [(str ''source'', JStr (str ''FILE_UPLOAD'')),
                   (str ''content_type'', JStr (str ''video/mp4'')),
                   (str ''filename'', JStr (basename video_path))] w
      in make_request self (str ''POST'') (str ''/post/publish/video/init'')
           (Some upload_data) None 3 w1)"

text \<open>
  \<open>_upload_video\<close>: the init-upload request, then, inside the \<open>with\<close> block, the
  file opened, \<open>upload_url\<close> read from the response, the bare \<open>requests.post\<close> and its
  \<open>raise_for_status\<close>; at last \<open>video_url\<close> read from the response. Nothing here is
  caught, so each failure ends the function.
\<close>

definition upload_video :: "TikTokAPI \<Rightarrow> pystr \<Rightarrow> world \<Rightarrow> (exn + json) \<times> world" where
  "upload_video self video_path w =
     (case init_upload self video_path w of
        (Inl e, w2) \<Rightarrow> (Inl e, w2)
      | (Inr upload_info, w2) \<Rightarrow>
          (let w3 = emit (Open video_path) w2
           in case fs w3 video_path of
                Inl e \<Rightarrow> (Inl e, w3)
              | Inr video_file \<Rightarrow>
                  (let files = [(str ''file'',
                                 (basename video_path, video_file, str ''video/mp4''))]
                   in case py_get upload_info (str ''upload_url'') of
                        Inl e \<Rightarrow> (Inl e, w3)
                      | Inr upload_url \<Rightarrow>
                          (case http (requests_post upload_url files) w3 of
                             (Inl e, w4) \<Rightarrow> (Inl e, w4)
                           | (Inr r, w4) \<Rightarrow>
                               (case raise_for_status r of
                                  Some e \<Rightarrow> (Inl e, w4)
                                | None \<Rightarrow>
                                    (case py_get upload_info (str ''video_url'') of
                                       Inl e \<Rightarrow> (Inl e, w4)
                                     | Inr v \<Rightarrow> (Inr v, w4)))))))"

definition post_video_file ::
  "TikTokAPI \<Rightarrow> pystr \<Rightarrow> pystr \<Rightarrow> pystr list option \<Rightarrow> world \<Rightarrow> (exn + json) \<times> world" where
  "post_video_file self video_path caption hashtags w =
     (let hashtags = (case hashtags of None \<Rightarrow> [] | Some h \<Rightarrow> h)
      in case upload_video self video_path w of
           (Inl e, w1) \<Rightarrow> (Inl e, w1)
         | (Inr upload_url, w1) \<Rightarrow> post_video self upload_url caption (Some hashtags) w1)"

definition get_account_info :: "TikTokAPI \<Rightarrow> world \<Rightarrow> (exn + json) \<times> world" where
  "get_account_info self w = make_request self (str ''GET'') (str ''/user/info'') None None 3 w"

definition get_video_status :: "TikTokAPI \<Rightarrow> pystr \<Rightarrow> world \<Rightarrow> (exn + json) \<times> world" where
  "get_video_status self video_id w =
     make_request self (str ''GET'') (str ''/post/publish/status'') None
       (Some [(str ''video_id'', JStr video_id)]) 3 w"

section \<open>tiktok\_service.py: class TikTokService\<close>

record TikTokService =
  api :: TikTokAPI

text \<open>
  The dict that every facade method returns: \<open>success\<close> and \<open>message\<close> always,
  \<open>data\<close> in the \<open>try\<close> branch, \<open>error\<close> in the \<open>except Exception\<close> branch.
\<close>

record ServiceResult =
  success :: bool
  message :: pystr
  data :: "json option"
  error :: "pystr option"

definition service_post_video ::
  "TikTokService \<Rightarrow> pystr \<Rightarrow> pystr \<Rightarrow> pystr list option \<Rightarrow> world \<Rightarrow> ServiceResult \<times> world" where
  "service_post_video self video_url caption hashtags w =
     (case post_video (api self) (JStr video_url) caption hashtags w of
        (Inr response, w1) \<Rightarrow>
          (\<lparr>success = True, message = str ''Video posted successfully'',
            data = Some response, error = None\<rparr>, w1)
      | (Inl e, w1) \<Rightarrow>
          (\<lparr>success = False, message = str ''Failed to post video: '' @ exn_text e,
            data = None, error = Some (exn_text e)\<rparr>, w1))"

definition service_post_video_file ::
  "TikTokService \<Rightarrow> pystr \<Rightarrow> pystr \<Rightarrow> pystr list option \<Rightarrow> world \<Rightarrow> ServiceResult \<times> world" where
  "service_post_video_file self video_path caption hashtags w =
     (case post_video_file (api self) video_path caption hashtags w of
        (Inr response, w1) \<Rightarrow>
          (\<lparr>success = True, message = str ''Video posted successfully'',
            data = Some response, error = None\<rparr>, w1)
      | (Inl e, w1) \<Rightarrow>
          (\<lparr>success = False, message = str ''Failed to post video: '' @ exn_text e,
            data = None, error = Some (exn_text e)\<rparr>, w1))"

definition service_get_account_info :: "TikTokService \<Rightarrow> world \<Rightarrow> ServiceResult \<times> world" where
  "service_get_account_info self w =
     (case get_account_info (api self) w of
        (Inr response, w1) \<Rightarrow>
          (\<lparr>success = True, message = str ''Account information retrieved successfully'',
            data = Some response, error = None\<rparr>, w1)
      | (Inl e, w1) \<Rightarrow>
          (\<lparr>success = False,
            message = str ''Failed to get account information: '' @ exn_text e,
            data = None, error = Some (exn_text e)\<rparr>, w1))"

section \<open>Reading the trace\<close>

text \<open>What an attempt of the \<open>try\<close> block yields for an outcome of the backend.\<close>

fun try_outcome :: "outcome \<Rightarrow> exn + json" where
  "try_outcome (Raises e) = Inl e"
| "try_outcome (Returns r) =
     (case raise_for_status r of Some e \<Rightarrow> Inl e | None \<Rightarrow> json_result r)"

text \<open>
  A failure at network level: the request raised a \<open>RequestException\<close> (connection
  error, timeout), or the status is one that \<open>raise_for_status\<close> refuses.
\<close>

fun network_failure :: "outcome \<Rightarrow> exn option" where
  "network_failure (Raises e) = (if is_RequestException e then Some e else None)"
| "network_failure (Returns r) = raise_for_status r"

text \<open>The world after one HTTP call.\<close>

definition attempted :: "http_call \<Rightarrow> world \<Rightarrow> world" where
  "attempted c w = (emit (Http c) w)\<lparr>calls := Suc (calls w)\<rparr>"

text \<open>The HTTP calls of a trace, in order.\<close>

fun http_calls :: "event list \<Rightarrow> http_call list" where
  "http_calls [] = []"
| "http_calls (Http c # evs) = c # http_calls evs"
| "http_calls (ev # evs) = http_calls evs"

text \<open>The events that a run from world \<open>w\<close> to world \<open>w'\<close> added.\<close>

definition new_events :: "world \<Rightarrow> world \<Rightarrow> event list" where
  "new_events w w' = drop (length (trace w)) (trace w')"

text \<open>A field of the JSON body that a call sends.\<close>

definition body_field :: "pystr \<Rightarrow> http_call \<Rightarrow> json option" where
  "body_field k c = (case c_json c of Some (JObj d) \<Rightarrow> map_of d k | _ \<Rightarrow> None)"

text \<open>
  The step of the upload-then-post sequence that a call belongs to: 0 for init-upload,
  1 for the raw upload, 2 for post-by-url, 3 for any other call.
\<close>

definition stage :: "http_call \<Rightarrow> nat" where
  "stage c =
     (if \<not> c_session c then 1
      else if c_url c = JStr (BASE_URL @ str ''/post/publish/video/init'') then 0
      else if c_url c = JStr (BASE_URL @ str ''/post/publish/video/url'') then 2
      else 3)"

text \<open>
  \<open>_make_request\<close>, lines 69 to 72, seen from the caller: the address of the body map,
  the map once the secret is stored in it, and the world in which the loop starts.
\<close>

definition body_addr :: "nat option \<Rightarrow> world \<Rightarrow> nat" where
  "body_addr d w = (case d of None \<Rightarrow> next_addr w | Some a \<Rightarrow> a)"

definition body_map :: "TikTokAPI \<Rightarrow> nat option \<Rightarrow> world \<Rightarrow> dict" where
  "body_map self d w =
     dict_set (str ''api_secret'') (JStr (api_secret self))
       (case d of None \<Rightarrow> [] | Some a \<Rightarrow> heap w a)"

definition inject :: "TikTokAPI \<Rightarrow> nat option \<Rightarrow> world \<Rightarrow> world" where
  "inject self d w =
     (case d of
        None \<Rightarrow> w\<lparr>next_addr := Suc (next_addr w),
                   heap := (heap w)(next_addr w := body_map self d w)\<rparr>
      | Some a \<Rightarrow> w\<lparr>heap := (heap w)(a := body_map self d w)\<rparr>)"

text \<open>
  What a run of the retry loop from world \<open>w\<close> leaves: the heap, the file system and
  the backend as they were, a trace extended by as many copies of the call \<open>c\<close> as
  calls were counted; if the loop was entered, at least one call and the result of the
  last one; if not, nothing done and \<open>None\<close>.
\<close>

definition loop_inv ::
  "http_call \<Rightarrow> bool \<Rightarrow> world \<Rightarrow> (exn + json) \<times> world \<Rightarrow> bool" where
  "loop_inv c enter w rw =
     (case rw of (r, w') \<Rightarrow>
        heap w' = heap w \<and> next_addr w' = next_addr w \<and> fs w' = fs w \<and> backend w' = backend w
        \<and> calls w \<le> calls w'
        \<and> (\<exists>evs. trace w' = trace w @ evs \<and> http_calls evs = replicate (calls w' - calls w) c)
        \<and> (if enter then calls w < calls w' \<and> r = try_outcome (backend w (calls w' - 1))
            else w' = w \<and> r = Inr JNull))"

text \<open>
  The call that \<open>post_video\<close> sends through \<open>_make_request\<close>: its dict display with
  the secret stored last.
\<close>

definition publish_call :: "TikTokAPI \<Rightarrow> json \<Rightarrow> pystr \<Rightarrow> http_call" where
  "publish_call self video_url caption =
     session_request (str ''POST'') (BASE_URL @ str ''/post/publish/video/url'')
       (get_headers self)
       (post_video_data video_url caption @ [(str ''api_secret'', JStr (api_secret self))])
       None"

text \<open>
  What the facade makes of the client's outcome \<open>rw\<close>: the world is the client's; a
  raised \<open>e\<close> becomes a result without success whose \<open>error\<close> is \<open>str(e)\<close> and whose
  \<open>message\<close> is a non-empty prefix followed by \<open>str(e)\<close>; a returned response becomes a
  result with success that carries it as \<open>data\<close>.
\<close>

definition contained :: "(exn + json) \<times> world \<Rightarrow> ServiceResult \<times> world \<Rightarrow> bool" where
  "contained rw sw =
     (snd sw = snd rw
      \<and> (\<forall>e. fst rw = Inl e \<longrightarrow>
             \<not> success (fst sw) \<and> error (fst sw) = Some (exn_text e) \<and> data (fst sw) = None
             \<and> (\<exists>pre. pre \<noteq> [] \<and> message (fst sw) = pre @ exn_text e))
      \<and> (\<forall>v. fst rw = Inr v \<longrightarrow>
             success (fst sw) \<and> data (fst sw) = Some v \<and> error (fst sw) = None
             \<and> message (fst sw) \<noteq> []))"

text \<open>
  The calls of \<open>_upload_video\<close>: the init-upload request with the secret stored last
  in its dict display, and the bare \<open>requests.post\<close> of the file.
\<close>

definition init_data :: "pystr \<Rightarrow> dict" where
  "init_data video_path =
     [(str ''source'', JStr (str ''FILE_UPLOAD'')),
      (str ''content_type'', JStr (str ''video/mp4'')),
      (str ''filename'', JStr (basename video_path))]"

definition init_call :: "TikTokAPI \<Rightarrow> pystr \<Rightarrow> http_call" where
  "init_call self video_path =
     session_request (str ''POST'') (BASE_URL @ str ''/post/publish/video/init'')
       (get_headers self)
       (init_data video_path @ [(str ''api_secret'', JStr (api_secret self))])
       None"

definition raw_call :: "pystr \<Rightarrow> bytes \<Rightarrow> json \<Rightarrow> http_call" where
  "raw_call video_path video_file upload_url =
     requests_post upload_url
       [(str ''file'', (basename video_path, video_file, str ''video/mp4''))]"

text \<open>
  \<open>_upload_video\<close>, lines 174 to 182, from the world after the init-upload request,
  and the raw upload calls it makes: one if the file opens and the response is a dict,
  none otherwise.
\<close>

definition after_init ::
  "pystr \<Rightarrow> json \<Rightarrow> world \<Rightarrow> (exn + json) \<times> world" where
  "after_init video_path upload_info w2 =
     (let w3 = emit (Open video_path) w2
      in case fs w3 video_path of
           Inl e \<Rightarrow> (Inl e, w3)
         | Inr video_file \<Rightarrow>
             (case py_get upload_info (str ''upload_url'') of
                Inl e \<Rightarrow> (Inl e, w3)
              | Inr upload_url \<Rightarrow>
                  (case http (raw_call video_path video_file upload_url) w3 of
                     (Inl e, w4) \<Rightarrow> (Inl e, w4)
                   | (Inr r, w4) \<Rightarrow>
                       (case raise_for_status r of
                          Some e \<Rightarrow> (Inl e, w4)
                        | None \<Rightarrow>
                            (case py_get upload_info (str ''video_url'') of
                               Inl e \<Rightarrow> (Inl e, w4)
                             | Inr v \<Rightarrow> (Inr v, w4))))))"

definition raw_uploads :: "pystr \<Rightarrow> json \<Rightarrow> world \<Rightarrow> http_call list" where
  "raw_uploads video_path upload_info w =
     (case fs w video_path of
        Inl e \<Rightarrow> []
      | Inr video_file \<Rightarrow>
          (case py_get upload_info (str ''upload_url'') of
             Inl e \<Rightarrow> []
           | Inr upload_url \<Rightarrow> [raw_call video_path video_file upload_url]))"

text \<open>
  The failure of the raw upload for an outcome of the backend: what \<open>requests.post\<close>
  raises, whatever its class, or what \<open>raise_for_status\<close> raises on the response.
  Nothing catches it.
\<close>

fun raw_failure :: "outcome \<Rightarrow> exn option" where
  "raw_failure (Raises e) = Some e"
| "raw_failure (Returns r) = raise_for_status r"

subsection \<open>Example inputs\<close>

definition example_api :: TikTokAPI where
  "example_api = \<lparr>api_key = str ''key'', api_secret = str ''secret''\<rparr>"

definition example_service :: TikTokService where
  "example_service = \<lparr>api = example_api\<rparr>"

definition ok_response :: "json \<Rightarrow> response" where
  "ok_response v = \<lparr>status_code = 200, http_error_text = [], json_result = Inr v\<rparr>"

definition example_fs :: "pystr \<Rightarrow> exn + bytes" where
  "example_fs p =
     (if p = str ''/tmp/clip.mp4'' then Inr [0, 0, 0, 24]
      else Inl (Exn OSError (str ''No such file or directory'')))"

definition fresh_world :: "(nat \<Rightarrow> outcome) \<Rightarrow> world" where
  "fresh_world b =
     \<lparr>backend = b, fs = example_fs, heap = (\<lambda>a. []), next_addr = 0, calls = 0, trace = []\<rparr>"

text \<open>A backend that is down, one that recovers at the third call, one that answers.\<close>

definition always_down :: "nat \<Rightarrow> outcome" where
  "always_down n = Raises (Exn ConnectionError (str ''Connection refused''))"

definition fails_twice :: "nat \<Rightarrow> outcome" where
  "fails_twice n =
     (if n < 2 then Raises (Exn Timeout (str ''Read timed out''))
      else Returns (ok_response (JObj [(str ''id'', JInt 7)])))"

definition always_ok :: "nat \<Rightarrow> outcome" where
  "always_ok n = Returns (ok_response (JObj []))"

text \<open>
  A backend whose first response has status 200 and a body that is no JSON, as
  requests from version 2.27 reports it (a \<open>RequestException\<close>) and as older versions
  do (a \<open>ValueError\<close>).
\<close>

definition decode_failure_once :: "nat \<Rightarrow> outcome" where
  "decode_failure_once n =
     (if n = 0
      then Returns \<lparr>status_code = 200, http_error_text = [],
                    json_result = Inl (Exn RequestsJSONDecodeError (str ''Expecting value''))\<rparr>
      else Returns (ok_response (JObj [])))"

definition value_error_once :: "nat \<Rightarrow> outcome" where
  "value_error_once n =
     (if n = 0
      then Returns \<lparr>status_code = 200, http_error_text = [],
                    json_result = Inl (Exn ValueError (str ''Expecting value''))\<rparr>
      else Returns (ok_response (JObj [])))"


text \<open>A backend that is down and whose failure has an empty text.\<close>

definition silent_down :: "nat \<Rightarrow> outcome" where
  "silent_down n = Raises (Exn ConnectionError [])"

text \<open>
  A backend for the upload: the init-upload response names the upload slot and the
  published URL, the storage accepts the file, the publish request answers.
\<close>

definition upload_backend :: "nat \<Rightarrow> outcome" where
  "upload_backend n =
     (if n = 0
      then Returns (ok_response (JObj
             [(str ''upload_url'', JStr (str ''https://upload.example/slot'')),
              (str ''video_url'', JStr (str ''https://cdn.example/clip.mp4''))]))
      else if n = 1 then Returns (ok_response JNull)
      else Returns (ok_response (JObj [(str ''publish_id'', JStr (str ''p1''))])))"

text \<open>A backend whose storage refuses the file with status 403.\<close>

definition upload_refused :: "nat \<Rightarrow> outcome" where
  "upload_refused n =
     (if n = 1
      then Returns \<lparr>status_code = 403, http_error_text = str ''403 Client Error: Forbidden'',
                    json_result = Inr JNull\<rparr>
      else upload_backend n)"

section \<open>Properties of the retry loop\<close>

lemma emit_simps [simp]:
  "trace (emit ev w) = trace w @ [ev]"
  "calls (emit ev w) = calls w"
  "heap (emit ev w) = heap w"
  "next_addr (emit ev w) = next_addr w"
  "fs (emit ev w) = fs w"
  "backend (emit ev w) = backend w"
  by (simp_all add: emit_def)

lemma attempted_simps [simp]:
  "trace (attempted c w) = trace w @ [Http c]"
  "calls (attempted c w) = Suc (calls w)"
  "heap (attempted c w) = heap w"
  "next_addr (attempted c w) = next_addr w"
  "fs (attempted c w) = fs w"
  "backend (attempted c w) = backend w"
  by (simp_all add: attempted_def)

lemma http_eq:
  "http c w =
     ((case backend w (calls w) of Raises e \<Rightarrow> Inl e | Returns r \<Rightarrow> Inr r), attempted c w)"
  by (simp add: http_def attempted_def Let_def split: outcome.split)

lemma try_request_eq:
  "try_request c w = (try_outcome (backend w (calls w)), attempted c w)"
  by (simp add: try_request_def http_eq split: outcome.split option.split)

lemma raise_for_status_is_RequestException:
  "raise_for_status r = Some e \<Longrightarrow> is_RequestException e"
  by (auto simp: raise_for_status_def split: if_splits)

lemma network_failure_try:
  "network_failure x = Some e \<Longrightarrow> try_outcome x = Inl e \<and> is_RequestException e"
  by (cases x) (auto split: if_splits simp: raise_for_status_is_RequestException)

lemma http_calls_append [simp]: "http_calls (xs @ ys) = http_calls xs @ http_calls ys"
  by (induction xs rule: http_calls.induct) simp_all

lemma new_events_append: "trace w' = trace w @ evs \<Longrightarrow> new_events w w' = evs"
  by (simp add: new_events_def)

lemma request_loop_exit:
  "\<not> attempt < retries \<Longrightarrow> request_loop m u h d p retries attempt w = (Inr JNull, w)"
  by (simp add: request_loop.simps)

lemma request_loop_return:
  "attempt < retries \<Longrightarrow> try_outcome (backend w (calls w)) = Inr v \<Longrightarrow>
   request_loop m u h d p retries attempt w =
     (Inr v, attempted (session_request m u h (heap w d) p) w)"
  by (subst request_loop.simps) (simp add: try_request_eq)

lemma request_loop_propagate:
  "attempt < retries \<Longrightarrow> try_outcome (backend w (calls w)) = Inl e \<Longrightarrow>
   \<not> is_RequestException e \<Longrightarrow>
   request_loop m u h d p retries attempt w =
     (Inl e, attempted (session_request m u h (heap w d) p) w)"
  by (subst request_loop.simps) (simp add: try_request_eq)

lemma request_loop_exhausted:
  "attempt < retries \<Longrightarrow> try_outcome (backend w (calls w)) = Inl e \<Longrightarrow>
   is_RequestException e \<Longrightarrow> retries \<le> attempt + 1 \<Longrightarrow>
   request_loop m u h d p retries attempt w =
     (Inl e, attempted (session_request m u h (heap w d) p) w)"
  by (subst request_loop.simps) (simp add: try_request_eq)

lemma request_loop_retry:
  "attempt < retries \<Longrightarrow> try_outcome (backend w (calls w)) = Inl e \<Longrightarrow>
   is_RequestException e \<Longrightarrow> attempt + 1 < retries \<Longrightarrow>
   request_loop m u h d p retries attempt w =
     request_loop m u h d p retries (attempt + 1)
       (emit (Sleep (2 ^ nat (attempt + 1))) (attempted (session_request m u h (heap w d) p) w))"
  by (subst request_loop.simps) (simp add: try_request_eq)

lemma loop_inv_one:
  "r = try_outcome (backend w (calls w)) \<Longrightarrow> loop_inv c True w (r, attempted c w)"
  by (simp add: loop_inv_def)

lemma loop_inv_step:
  assumes "loop_inv c True (emit (Sleep n) (attempted c w)) rw"
  shows "loop_inv c True w rw"
proof -
  obtain r w' where rw: "rw = (r, w')" by (cases rw)
  from assms obtain evs where
    evs: "trace w' = (trace w @ [Http c]) @ [Sleep n] @ evs"
         "http_calls evs = replicate (calls w' - Suc (calls w)) c"
    and lt: "Suc (calls w) < calls w'"
    by (auto simp: loop_inv_def rw)
  have "http_calls ([Http c] @ [Sleep n] @ evs) = replicate (calls w' - calls w) c"
    using evs(2) lt by (simp add: Suc_diff_Suc flip: replicate_Suc)
  then have "\<exists>evs'. trace w' = trace w @ evs' \<and> http_calls evs' = replicate (calls w' - calls w) c"
    using evs(1) by (intro exI[of _ "[Http c] @ [Sleep n] @ evs"]) simp
  with assms lt show ?thesis
    by (simp add: loop_inv_def rw)
qed

lemma request_loop_inv:
  "loop_inv (session_request m u h (heap w d) p) (attempt < retries) w
     (request_loop m u h d p retries attempt w)"
proof (induction "nat (retries - attempt)" arbitrary: attempt w)
  case 0
  then show ?case by (simp add: request_loop_exit loop_inv_def)
next
  case (Suc k)
  then have lt: "attempt < retries" by simp
  let ?c = "session_request m u h (heap w d) p"
  let ?w1 = "attempted ?c w"
  show ?case
  proof (cases "try_outcome (backend w (calls w))")
    case (Inr v)
    with lt show ?thesis by (simp add: request_loop_return loop_inv_one)
  next
    case (Inl e)
    show ?thesis
    proof (cases "is_RequestException e \<and> attempt + 1 < retries")
      case False
      with lt Inl show ?thesis
        by (cases "is_RequestException e")
           (simp_all add: request_loop_propagate request_loop_exhausted loop_inv_one)
    next
      case True
      let ?w2 = "emit (Sleep (2 ^ nat (attempt + 1))) ?w1"
      have k: "k = nat (retries - (attempt + 1))" using Suc.hyps(2) by simp
      have "loop_inv (session_request m u h (heap ?w2 d) p) (attempt + 1 < retries) ?w2
              (request_loop m u h d p retries (attempt + 1) ?w2)"
        by (rule Suc.hyps(1)[OF k])
      then have "loop_inv ?c True ?w2 (request_loop m u h d p retries (attempt + 1) ?w2)"
        using True by simp
      then have "loop_inv ?c True w (request_loop m u h d p retries (attempt + 1) ?w2)"
        by (rule loop_inv_step)
      then show ?thesis using lt Inl True by (simp add: request_loop_retry)
    qed
  qed
qed

lemma make_request_eq:
  "make_request self m ep d p retries w =
     request_loop m (BASE_URL @ ep) (get_headers self) (body_addr d w) p retries 0 (inject self d w)"
  by (cases d) (simp_all add: make_request_def alloc_def body_addr_def body_map_def inject_def)

lemma inject_simps [simp]:
  "trace (inject self d w) = trace w"
  "calls (inject self d w) = calls w"
  "fs (inject self d w) = fs w"
  "backend (inject self d w) = backend w"
  "heap (inject self d w) = (heap w)(body_addr d w := body_map self d w)"
  "next_addr (inject self d w) = (case d of None \<Rightarrow> Suc (next_addr w) | Some a \<Rightarrow> next_addr w)"
  by (simp_all add: inject_def body_addr_def split: option.split)

lemma make_request_inv:
  "loop_inv (session_request m (BASE_URL @ ep) (get_headers self) (body_map self d w) p)
     (0 < retries) (inject self d w) (make_request self m ep d p retries w)"
  using request_loop_inv[of m "BASE_URL @ ep" "get_headers self" "inject self d w" "body_addr d w" p 0 retries]
  by (simp add: make_request_eq)


lemma map_of_dict_set_other: "k' \<noteq> k \<Longrightarrow> map_of (dict_set k v d) k' = map_of d k'"
  by (induction d) auto

section \<open>Claims about the transport\<close>

text \<open>
  Claim C9. For every method, endpoint, body and params: with a retry budget
  \<open>retries \<le> 0\<close>, \<open>_make_request\<close> performs no HTTP attempt (the trace and the call
  counter are as before) and returns \<open>None\<close>. With a budget of at least 1 it performs at
  least one attempt, and it either raises or returns the body that some response of the
  backend decoded to; the contract "returns a decoded response body or raises" therefore
  needs \<open>retries \<ge> 1\<close>.
\<close>

theorem make_request_without_budget:
  "(retries \<le> 0 \<longrightarrow>
      fst (make_request self m ep d p retries w) = Inr JNull
      \<and> trace (snd (make_request self m ep d p retries w)) = trace w
      \<and> calls (snd (make_request self m ep d p retries w)) = calls w)
   \<and> (1 \<le> retries \<longrightarrow>
      calls w < calls (snd (make_request self m ep d p retries w))
      \<and> http_calls (new_events w (snd (make_request self m ep d p retries w))) \<noteq> []
      \<and> ((\<exists>e. fst (make_request self m ep d p retries w) = Inl e)
         \<or> (\<exists>n r v. backend w n = Returns r \<and> json_result r = Inr v
               \<and> fst (make_request self m ep d p retries w) = Inr v)))"
proof -
  obtain r w' where rw: "make_request self m ep d p retries w = (r, w')"
    by (cases "make_request self m ep d p retries w")
  have inv: "loop_inv (session_request m (BASE_URL @ ep) (get_headers self) (body_map self d w) p)
     (0 < retries) (inject self d w) (r, w')"
    using make_request_inv[of m ep self d w p retries] by (simp add: rw)
  show ?thesis
  proof (cases "0 < retries")
    case False
    with inv show ?thesis by (simp add: loop_inv_def rw)
  next
    case True
    from inv True obtain evs where
      lt: "calls w < calls w'" and r: "r = try_outcome (backend w (calls w' - 1))"
      and evs: "trace w' = trace w @ evs"
        "http_calls evs = replicate (calls w' - calls w)
           (session_request m (BASE_URL @ ep) (get_headers self) (body_map self d w) p)"
      by (auto simp: loop_inv_def)
    have ne: "http_calls (new_events w w') \<noteq> []"
      using evs lt by (simp add: new_events_append)
    have "(\<exists>e. r = Inl e) \<or> (\<exists>n x v. backend w n = Returns x \<and> json_result x = Inr v \<and> r = Inr v)"
    proof (cases r)
      case (Inl e) then show ?thesis by simp
    next
      case (Inr v)
      with r have "try_outcome (backend w (calls w' - 1)) = Inr v" by simp
      then obtain x where "backend w (calls w' - 1) = Returns x" "json_result x = Inr v"
        by (cases "backend w (calls w' - 1)") (auto split: option.splits)
      with Inr show ?thesis by blast
    qed
    with True lt ne show ?thesis by (simp add: rw)
  qed
qed

theorem make_request_without_budget_witness:
  "fst (make_request example_api (str ''GET'') (str ''/user/info'') None None 0
          (fresh_world always_ok)) = Inr JNull
   \<and> trace (snd (make_request example_api (str ''GET'') (str ''/user/info'') None None 0
          (fresh_world always_ok))) = []
   \<and> calls (snd (make_request example_api (str ''GET'') (str ''/user/info'') None None 0
          (fresh_world always_ok))) = 0
   \<and> 0 < calls (snd (make_request example_api (str ''GET'') (str ''/user/info'') None None 3
          (fresh_world always_ok)))"
  using make_request_without_budget
          [of 0 example_api "str ''GET''" "str ''/user/info''" None None "fresh_world always_ok"]
        make_request_without_budget
          [of 3 example_api "str ''GET''" "str ''/user/info''" None None "fresh_world always_ok"]
  by (simp add: fresh_world_def)

lemma heap_inject_body [simp]: "heap (inject self d w) (body_addr d w) = body_map self d w"
  by simp

text \<open>
  Claim C2. With a retry budget of 3 and a backend whose three next answers all fail at
  network level, \<open>_make_request\<close> performs exactly 3 attempts, sleeps 2 before the
  second and 4 before the third, and raises the failure of the third attempt.
\<close>

theorem retry_exhaustion:
  assumes "\<forall>k<3. network_failure (backend w (calls w + k)) \<noteq> None"
  shows "\<exists>e. network_failure (backend w (calls w + 2)) = Some e
           \<and> fst (make_request self m ep d p 3 w) = Inl e
           \<and> trace (snd (make_request self m ep d p 3 w)) =
               trace w @
               [Http (session_request m (BASE_URL @ ep) (get_headers self) (body_map self d w) p),
                Sleep 2,
                Http (session_request m (BASE_URL @ ep) (get_headers self) (body_map self d w) p),
                Sleep 4,
                Http (session_request m (BASE_URL @ ep) (get_headers self) (body_map self d w) p)]
           \<and> calls (snd (make_request self m ep d p 3 w)) = calls w + 3"
proof -
  let ?c = "session_request m (BASE_URL @ ep) (get_headers self) (body_map self d w) p"
  let ?w0 = "inject self d w"
  let ?w1 = "emit (Sleep 2) (attempted ?c ?w0)"
  let ?w2 = "emit (Sleep 4) (attempted ?c ?w1)"
  let ?loop = "request_loop m (BASE_URL @ ep) (get_headers self) (body_addr d w) p 3"
  from assms obtain e0 e1 e2 where
    f: "network_failure (backend w (calls w)) = Some e0"
       "network_failure (backend w (Suc (calls w))) = Some e1"
       "network_failure (backend w (Suc (Suc (calls w)))) = Some e2"
    using assms[rule_format, of 0] assms[rule_format, of 1] assms[rule_format, of 2]
    by (auto simp: numeral_2_eq_2)
  note t = f[THEN network_failure_try]
  have s0: "?loop 0 ?w0 = ?loop 1 ?w1"
    using request_loop_retry[of 0 3 ?w0 e0 m "BASE_URL @ ep" "get_headers self" "body_addr d w" p] t(1)
    by simp
  have s1: "?loop 1 ?w1 = ?loop 2 ?w2"
    using request_loop_retry[of 1 3 ?w1 e1 m "BASE_URL @ ep" "get_headers self" "body_addr d w" p] t(2)
    by simp
  have s2: "?loop 2 ?w2 = (Inl e2, attempted ?c ?w2)"
    using request_loop_exhausted[of 2 3 ?w2 e2 m "BASE_URL @ ep" "get_headers self" "body_addr d w" p] t(3)
    by simp
  have "make_request self m ep d p 3 w = (Inl e2, attempted ?c ?w2)"
    by (simp only: make_request_eq s0 s1 s2)
  with f(3) show ?thesis by (simp add: numeral_2_eq_2)
qed

theorem retry_exhaustion_witness:
  "fst (make_request example_api (str ''GET'') (str ''/user/info'') None None 3
          (fresh_world always_down)) = Inl (Exn ConnectionError (str ''Connection refused''))
   \<and> trace (snd (make_request example_api (str ''GET'') (str ''/user/info'') None None 3
          (fresh_world always_down))) =
       [Http (session_request (str ''GET'') (BASE_URL @ str ''/user/info'')
                (get_headers example_api) (body_map example_api None (fresh_world always_down)) None),
        Sleep 2,
        Http (session_request (str ''GET'') (BASE_URL @ str ''/user/info'')
                (get_headers example_api) (body_map example_api None (fresh_world always_down)) None),
        Sleep 4,
        Http (session_request (str ''GET'') (BASE_URL @ str ''/user/info'')
                (get_headers example_api) (body_map example_api None (fresh_world always_down)) None)]
   \<and> calls (snd (make_request example_api (str ''GET'') (str ''/user/info'') None None 3
          (fresh_world always_down))) = 3"
  using retry_exhaustion
          [of "fresh_world always_down" example_api "str ''GET''" "str ''/user/info''" None None]
  by (simp add: fresh_world_def always_down_def)

text \<open>
  Claim C6. With a retry budget of 3 and a backend that fails at network level twice and
  then answers with a body that decodes, \<open>_make_request\<close> returns the decoded body,
  performs exactly 3 attempts (sleeping 2 and 4 between them) and raises nothing.
\<close>

theorem retry_recovery:
  assumes "network_failure (backend w (calls w)) \<noteq> None"
    and "network_failure (backend w (calls w + 1)) \<noteq> None"
    and "backend w (calls w + 2) = Returns r"
    and "raise_for_status r = None"
    and "json_result r = Inr v"
  shows "fst (make_request self m ep d p 3 w) = Inr v
         \<and> trace (snd (make_request self m ep d p 3 w)) =
               trace w @
               [Http (session_request m (BASE_URL @ ep) (get_headers self) (body_map self d w) p),
                Sleep 2,
                Http (session_request m (BASE_URL @ ep) (get_headers self) (body_map self d w) p),
                Sleep 4,
                Http (session_request m (BASE_URL @ ep) (get_headers self) (body_map self d w) p)]
         \<and> calls (snd (make_request self m ep d p 3 w)) = calls w + 3"
proof -
  let ?c = "session_request m (BASE_URL @ ep) (get_headers self) (body_map self d w) p"
  let ?w0 = "inject self d w"
  let ?w1 = "emit (Sleep 2) (attempted ?c ?w0)"
  let ?w2 = "emit (Sleep 4) (attempted ?c ?w1)"
  let ?loop = "request_loop m (BASE_URL @ ep) (get_headers self) (body_addr d w) p 3"
  from assms(1,2) obtain e0 e1 where
    f: "network_failure (backend w (calls w)) = Some e0"
       "network_failure (backend w (Suc (calls w))) = Some e1"
    by auto
  note t = f[THEN network_failure_try]
  have ok: "try_outcome (backend w (Suc (Suc (calls w)))) = Inr v"
    using assms(3,4,5) by simp
  have s0: "?loop 0 ?w0 = ?loop 1 ?w1"
    using request_loop_retry[of 0 3 ?w0 e0 m "BASE_URL @ ep" "get_headers self" "body_addr d w" p] t(1)
    by simp
  have s1: "?loop 1 ?w1 = ?loop 2 ?w2"
    using request_loop_retry[of 1 3 ?w1 e1 m "BASE_URL @ ep" "get_headers self" "body_addr d w" p] t(2)
    by simp
  have s2: "?loop 2 ?w2 = (Inr v, attempted ?c ?w2)"
    using request_loop_return[of 2 3 ?w2 v m "BASE_URL @ ep" "get_headers self" "body_addr d w" p] ok
    by simp
  have "make_request self m ep d p 3 w = (Inr v, attempted ?c ?w2)"
    by (simp only: make_request_eq s0 s1 s2)
  then show ?thesis by simp
qed

theorem retry_recovery_witness:
  "fst (make_request example_api (str ''GET'') (str ''/user/info'') None None 3
          (fresh_world fails_twice)) = Inr (JObj [(str ''id'', JInt 7)])
   \<and> trace (snd (make_request example_api (str ''GET'') (str ''/user/info'') None None 3
          (fresh_world fails_twice))) =
       [Http (session_request (str ''GET'') (BASE_URL @ str ''/user/info'')
                (get_headers example_api) (body_map example_api None (fresh_world fails_twice)) None),
        Sleep 2,
        Http (session_request (str ''GET'') (BASE_URL @ str ''/user/info'')
                (get_headers example_api) (body_map example_api None (fresh_world fails_twice)) None),
        Sleep 4,
        Http (session_request (str ''GET'') (BASE_URL @ str ''/user/info'')
                (get_headers example_api) (body_map example_api None (fresh_world fails_twice)) None)]
   \<and> calls (snd (make_request example_api (str ''GET'') (str ''/user/info'') None None 3
          (fresh_world fails_twice))) = 3"
  using retry_recovery
          [of "fresh_world fails_twice" "ok_response (JObj [(str ''id'', JInt 7)])"
              "JObj [(str ''id'', JInt 7)]" example_api "str ''GET''" "str ''/user/info''" None None]
  by (simp add: fresh_world_def fails_twice_def ok_response_def raise_for_status_def)

lemma str_eq_iff [simp]: "str a = str b \<longleftrightarrow> a = b"
proof -
  have "inj (of_char :: char \<Rightarrow> nat)" by (rule injI) simp
  then show ?thesis unfolding str_def by (rule inj_map_eq_map)
qed

text \<open>
  Claim C5, as amended. An attempt (any iteration of the loop) that receives a 2xx
  response whose \<open>json()\<close> raises: when the failure is no \<open>RequestException\<close> (the
  \<open>ValueError\<close> of \<open>json.JSONDecodeError\<close>), it is raised to the caller at once, with
  no sleep and no further attempt; when it is a \<open>RequestException\<close> (the
  \<open>JSONDecodeError\<close> of requests 2.27 and later), the \<open>except\<close> clause catches it
  and it is handled as any failed attempt: a sleep and another attempt while the budget
  lasts, raised once the budget is used up.
\<close>

theorem decode_failure_handling:
  assumes "attempt < retries"
    and "backend w (calls w) = Returns r"
    and "200 \<le> status_code r" and "status_code r < 300"
    and "json_result r = Inl e"
  shows "(\<not> is_RequestException e \<longrightarrow>
            request_loop m u h d p retries attempt w =
              (Inl e, attempted (session_request m u h (heap w d) p) w))
       \<and> (is_RequestException e \<and> attempt + 1 < retries \<longrightarrow>
            request_loop m u h d p retries attempt w =
              request_loop m u h d p retries (attempt + 1)
                (emit (Sleep (2 ^ nat (attempt + 1)))
                   (attempted (session_request m u h (heap w d) p) w)))
       \<and> (is_RequestException e \<and> retries \<le> attempt + 1 \<longrightarrow>
            request_loop m u h d p retries attempt w =
              (Inl e, attempted (session_request m u h (heap w d) p) w))"
proof -
  have "raise_for_status r = None"
    using assms(3,4) by (simp add: raise_for_status_def)
  then have t: "try_outcome (backend w (calls w)) = Inl e"
    using assms(2,5) by simp
  show ?thesis
    using assms(1) t
    by (simp add: request_loop_propagate request_loop_retry request_loop_exhausted)
qed

theorem decode_failure_handling_witness:
  "make_request example_api (str ''GET'') (str ''/user/info'') None None 3
     (fresh_world value_error_once) =
   (Inl (Exn ValueError (str ''Expecting value'')),
    attempted
      (session_request (str ''GET'') (BASE_URL @ str ''/user/info'') (get_headers example_api)
         (body_map example_api None (fresh_world value_error_once)) None)
      (inject example_api None (fresh_world value_error_once)))
   \<and> make_request example_api (str ''GET'') (str ''/user/info'') None None 3
     (fresh_world decode_failure_once) =
     request_loop (str ''GET'') (BASE_URL @ str ''/user/info'') (get_headers example_api)
       (body_addr None (fresh_world decode_failure_once)) None 3 1
       (emit (Sleep 2)
         (attempted
            (session_request (str ''GET'') (BASE_URL @ str ''/user/info'') (get_headers example_api)
               (body_map example_api None (fresh_world decode_failure_once)) None)
            (inject example_api None (fresh_world decode_failure_once))))"
  using decode_failure_handling
          [of 0 3 "inject example_api None (fresh_world value_error_once)"
              "\<lparr>status_code = 200, http_error_text = [],
                json_result = Inl (Exn ValueError (str ''Expecting value''))\<rparr>"
              "Exn ValueError (str ''Expecting value'')"
              "str ''GET''" "BASE_URL @ str ''/user/info''" "get_headers example_api"
              "body_addr None (fresh_world value_error_once)" None]
        decode_failure_handling
          [of 0 3 "inject example_api None (fresh_world decode_failure_once)"
              "\<lparr>status_code = 200, http_error_text = [],
                json_result = Inl (Exn RequestsJSONDecodeError (str ''Expecting value''))\<rparr>"
              "Exn RequestsJSONDecodeError (str ''Expecting value'')"
              "str ''GET''" "BASE_URL @ str ''/user/info''" "get_headers example_api"
              "body_addr None (fresh_world decode_failure_once)" None]
  by (simp add: make_request_eq fresh_world_def value_error_once_def decode_failure_once_def)

text \<open>
  The claim as stated fails where \<open>json()\<close> raises the library's own
  \<open>JSONDecodeError\<close>: the failure of the first attempt is not raised; after a sleep of
  2 a second attempt is made, and its decoded body is returned.
\<close>

theorem decode_failure_retried_counterexample:
  "fst (make_request example_api (str ''GET'') (str ''/user/info'') None None 3
          (fresh_world decode_failure_once)) = Inr (JObj [])
   \<and> fst (make_request example_api (str ''GET'') (str ''/user/info'') None None 3
          (fresh_world decode_failure_once)) \<noteq>
       Inl (Exn RequestsJSONDecodeError (str ''Expecting value''))
   \<and> trace (snd (make_request example_api (str ''GET'') (str ''/user/info'') None None 3
          (fresh_world decode_failure_once))) =
       [Http (session_request (str ''GET'') (BASE_URL @ str ''/user/info'')
                (get_headers example_api) [(str ''api_secret'', JStr (str ''secret''))] None),
        Sleep 2,
        Http (session_request (str ''GET'') (BASE_URL @ str ''/user/info'')
                (get_headers example_api) [(str ''api_secret'', JStr (str ''secret''))] None)]"
proof -
  let ?c = "session_request (str ''GET'') (BASE_URL @ str ''/user/info'')
                (get_headers example_api) [(str ''api_secret'', JStr (str ''secret''))] None"
  let ?w0 = "inject example_api None (fresh_world decode_failure_once)"
  let ?w1 = "emit (Sleep 2) (attempted ?c ?w0)"
  let ?loop = "request_loop (str ''GET'') (BASE_URL @ str ''/user/info'')
                 (get_headers example_api) 0 None 3"
  have b: "body_map example_api None (fresh_world decode_failure_once) =
             [(str ''api_secret'', JStr (str ''secret''))]"
    by (simp add: body_map_def example_api_def)
  have a: "body_addr None (fresh_world decode_failure_once) = 0"
    by (simp add: body_addr_def fresh_world_def)
  have h: "heap ?w0 0 = [(str ''api_secret'', JStr (str ''secret''))]"
    using b a by (simp add: fresh_world_def)
  have s0: "?loop 0 ?w0 = ?loop 1 ?w1"
    using request_loop_retry[of 0 3 ?w0 "Exn RequestsJSONDecodeError (str ''Expecting value'')"
            "str ''GET''" "BASE_URL @ str ''/user/info''" "get_headers example_api" 0 None] h
    by (simp add: fresh_world_def decode_failure_once_def raise_for_status_def)
  have s1: "?loop 1 ?w1 = (Inr (JObj []), attempted ?c ?w1)"
    using request_loop_return[of 1 3 ?w1 "JObj []"
            "str ''GET''" "BASE_URL @ str ''/user/info''" "get_headers example_api" 0 None] h
    by (simp add: fresh_world_def decode_failure_once_def raise_for_status_def ok_response_def)
  have "make_request example_api (str ''GET'') (str ''/user/info'') None None 3
          (fresh_world decode_failure_once) = (Inr (JObj []), attempted ?c ?w1)"
    by (simp only: make_request_eq a s0 s1)
  then show ?thesis by (simp add: fresh_world_def)
qed





section \<open>Properties of the platform client\<close>

lemma upper_POST [simp]: "upper (str ''POST'') = str ''POST''"
  by (simp add: upper_def upper_char_def str_def)

lemma upper_GET [simp]: "upper (str ''GET'') = str ''GET''"
  by (simp add: upper_def upper_char_def str_def)

lemma upper_long_s: "upper [112, 111, 383, 116] = str ''POST''"
  by (simp add: upper_def upper_char_def str_def)

lemma str_Nil [simp]: "str s = [] \<longleftrightarrow> s = []"
  by (simp add: str_def)

lemma alloc_simps [simp]:
  "fst (alloc d w) = next_addr w"
  "trace (snd (alloc d w)) = trace w"
  "calls (snd (alloc d w)) = calls w"
  "fs (snd (alloc d w)) = fs w"
  "backend (snd (alloc d w)) = backend w"
  "heap (snd (alloc d w)) = (heap w)(next_addr w := d)"
  "next_addr (snd (alloc d w)) = Suc (next_addr w)"
  by (simp_all add: alloc_def)

lemma make_request_shape:
  assumes "0 < retries" and "make_request self m ep d p retries w = (r, w')"
  shows "fs w' = fs w \<and> backend w' = backend w \<and> calls w < calls w'
         \<and> r = try_outcome (backend w (calls w' - 1))
         \<and> (\<exists>evs. trace w' = trace w @ evs
               \<and> http_calls evs = replicate (calls w' - calls w)
                   (session_request m (BASE_URL @ ep) (get_headers self) (body_map self d w) p))"
  using make_request_inv[of m ep self d w p retries] assms
  by (simp add: loop_inv_def)

lemma post_video_eq:
  "post_video self video_url caption hashtags w =
     make_request self (str ''POST'') (str ''/post/publish/video/url'') (Some (next_addr w)) None 3
       (snd (alloc (post_video_data video_url
                      (full_caption caption (case hashtags of None \<Rightarrow> [] | Some h \<Rightarrow> h))) w))"
  by (simp add: post_video_def alloc_def Let_def)

lemma body_map_post_video:
  "body_map self (Some (next_addr w)) (snd (alloc (post_video_data v c) w)) =
     post_video_data v c @ [(str ''api_secret'', JStr (api_secret self))]"
  by (simp add: body_map_def post_video_data_def)

lemma post_video_shape:
  assumes "post_video self video_url caption hashtags w = (r, w')"
  shows "fs w' = fs w \<and> backend w' = backend w \<and> calls w < calls w'
         \<and> r = try_outcome (backend w (calls w' - 1))
         \<and> (\<exists>evs. trace w' = trace w @ evs
               \<and> http_calls evs = replicate (calls w' - calls w)
                   (publish_call self video_url
                      (full_caption caption (case hashtags of None \<Rightarrow> [] | Some h \<Rightarrow> h))))"
  using make_request_shape[OF _ assms[unfolded post_video_eq]]
  by (simp add: body_map_post_video publish_call_def)

lemma publish_call_fields:
  "body_field (str ''caption'') (publish_call self v c) = Some (JStr c)"
  "body_field (str ''video_url'') (publish_call self v c) = Some v"
  "body_field (str ''post_info'') (publish_call self v c) =
     Some (JObj [(str ''title'', JStr (take 80 c)),
                 (str ''disable_comment'', JBool False),
                 (str ''disable_duet'', JBool False),
                 (str ''disable_stitch'', JBool False)])"
  "body_field (str ''api_secret'') (publish_call self v c) = Some (JStr (api_secret self))"
  "c_session (publish_call self v c)"
  "c_url (publish_call self v c) = JStr (BASE_URL @ str ''/post/publish/video/url'')"
  by (simp_all add: publish_call_def body_field_def session_request_def post_video_data_def)

lemma strip_id:
  assumes "s \<noteq> []" "\<not> isspace (hd s)" "\<not> isspace (last s)"
  shows "strip s = s"
proof -
  have "dropWhile isspace s = s" using assms(2) by (simp add: dropWhile_eq_self_iff)
  moreover have "dropWhile isspace (rev s) = rev s"
    using assms(1,3) by (simp add: dropWhile_eq_self_iff hd_rev)
  ultimately show ?thesis by (simp add: strip_def)
qed

lemma join_last:
  "xs \<noteq> [] \<Longrightarrow> \<forall>x \<in> set xs. x \<noteq> [] \<Longrightarrow>
   join sep xs \<noteq> [] \<and> last (join sep xs) = last (last xs)"
  by (induction sep xs rule: join.induct) auto

lemma make_request_first_ok:
  assumes "0 < retries" and "try_outcome (backend w (calls w)) = Inr v"
  shows "make_request self m ep d p retries w =
           (Inr v, attempted (session_request m (BASE_URL @ ep) (get_headers self)
                                (body_map self d w) p) (inject self d w))"
  using request_loop_return[of 0 retries "inject self d w" v m "BASE_URL @ ep" "get_headers self"
          "body_addr d w" p] assms
  by (simp add: make_request_eq)

lemma post_video_first_ok:
  assumes "try_outcome (backend w (calls w)) = Inr v"
  shows "trace (snd (post_video self u c h w)) =
           trace w @ [Http (publish_call self u
                        (full_caption c (case h of None \<Rightarrow> [] | Some x \<Rightarrow> x)))]
         \<and> fst (post_video self u c h w) = Inr v"
  using make_request_first_ok[of 3 "snd (alloc (post_video_data u
                      (full_caption c (case h of None \<Rightarrow> [] | Some x \<Rightarrow> x))) w)" v self
          "str ''POST''" "str ''/post/publish/video/url''" "Some (next_addr w)" None] assms
  by (simp add: post_video_eq body_map_post_video publish_call_def)

section \<open>Claims about the platform client\<close>

text \<open>
  Claim C4, as amended. For every caption and every list of hashtags, \<open>post_video\<close>
  makes at least one attempt and every attempt carries a body whose \<open>caption\<close> is the
  caption, a space and the space-joined \<open>#tag\<close> tokens, with leading and trailing
  whitespace stripped, and whose \<open>post_info.title\<close> is the first 80 characters of
  that caption. Where the caption is not empty and does not start with whitespace, the
  list is not empty and its last token does not end with whitespace, nothing is stripped
  and the caption sent is the caption, a space and the joined tokens. The witness is the
  call \<open>post_video("u", "Hello", ["fyp", "viral"])\<close>: caption and title are
  \<open>Hello #fyp #viral\<close>.
\<close>

theorem post_video_caption_and_title:
  "http_calls (new_events w (snd (post_video self video_url caption (Some tags) w))) \<noteq> []
   \<and> (\<forall>c \<in> set (http_calls (new_events w (snd (post_video self video_url caption (Some tags) w)))).
         body_field (str ''caption'') c =
           Some (JStr (strip (caption @ str '' '' @
                        join (str '' '') (map (\<lambda>tag. str ''#'' @ tag) tags))))
         \<and> body_field (str ''post_info'') c =
           Some (JObj [(str ''title'',
                        JStr (take 80 (strip (caption @ str '' '' @
                                join (str '' '') (map (\<lambda>tag. str ''#'' @ tag) tags))))),
                       (str ''disable_comment'', JBool False),
                       (str ''disable_duet'', JBool False),
                       (str ''disable_stitch'', JBool False)]))
   \<and> (caption \<noteq> [] \<and> \<not> isspace (hd caption) \<and> tags \<noteq> []
        \<and> \<not> isspace (last (str ''#'' @ last tags)) \<longrightarrow>
       strip (caption @ str '' '' @ join (str '' '') (map (\<lambda>tag. str ''#'' @ tag) tags)) =
         caption @ str '' '' @ join (str '' '') (map (\<lambda>tag. str ''#'' @ tag) tags))"
proof -
  let ?toks = "map (\<lambda>tag. str ''#'' @ tag) tags"
  let ?full = "strip (caption @ str '' '' @ join (str '' '') ?toks)"
  obtain r w' where rw: "post_video self video_url caption (Some tags) w = (r, w')"
    by (cases "post_video self video_url caption (Some tags) w")
  from post_video_shape[OF rw] obtain evs where
    lt: "calls w < calls w'" and evs: "trace w' = trace w @ evs"
    "http_calls evs = replicate (calls w' - calls w) (publish_call self video_url ?full)"
    by (auto simp: full_caption_def)
  have ne: "new_events w w' = evs" using evs(1) by (rule new_events_append)
  have a: "http_calls (new_events w w') \<noteq> []" using lt by (simp add: ne evs(2))
  have b: "\<forall>c \<in> set (http_calls (new_events w w')).
         body_field (str ''caption'') c = Some (JStr ?full)
         \<and> body_field (str ''post_info'') c =
           Some (JObj [(str ''title'', JStr (take 80 ?full)),
                       (str ''disable_comment'', JBool False),
                       (str ''disable_duet'', JBool False),
                       (str ''disable_stitch'', JBool False)])"
    by (simp add: ne evs(2) publish_call_fields)
  have c: "strip (caption @ str '' '' @ join (str '' '') ?toks) =
             caption @ str '' '' @ join (str '' '') ?toks"
    if h: "caption \<noteq> []" "\<not> isspace (hd caption)" "tags \<noteq> []"
          "\<not> isspace (last (str ''#'' @ last tags))"
  proof (rule strip_id)
    show "caption @ str '' '' @ join (str '' '') ?toks \<noteq> []" using h(1) by simp
    show "\<not> isspace (hd (caption @ str '' '' @ join (str '' '') ?toks))" using h(1,2) by simp
    have "join (str '' '') ?toks \<noteq> [] \<and> last (join (str '' '') ?toks) = last (last ?toks)"
      by (rule join_last) (use h(3) in auto)
    then show "\<not> isspace (last (caption @ str '' '' @ join (str '' '') ?toks))"
      using h(3,4) by (simp add: last_map)
  qed
  from a b c show ?thesis unfolding rw snd_conv by blast
qed

theorem post_video_caption_and_title_witness:
  "body_field (str ''caption'')
     (hd (http_calls (new_events (fresh_world always_ok)
        (snd (post_video example_api (JStr (str ''u'')) (str ''Hello'')
                (Some [str ''fyp'', str ''viral'']) (fresh_world always_ok)))))) =
     Some (JStr (str ''Hello #fyp #viral''))
   \<and> body_field (str ''post_info'')
     (hd (http_calls (new_events (fresh_world always_ok)
        (snd (post_video example_api (JStr (str ''u'')) (str ''Hello'')
                (Some [str ''fyp'', str ''viral'']) (fresh_world always_ok)))))) =
     Some (JObj [(str ''title'', JStr (str ''Hello #fyp #viral'')),
                 (str ''disable_comment'', JBool False),
                 (str ''disable_duet'', JBool False),
                 (str ''disable_stitch'', JBool False)])
   \<and> str ''Hello #fyp #viral'' = str ''Hello'' @ str '' '' @ str ''#fyp #viral''"
proof -
  let ?cs = "http_calls (new_events (fresh_world always_ok)
        (snd (post_video example_api (JStr (str ''u'')) (str ''Hello'')
                (Some [str ''fyp'', str ''viral'']) (fresh_world always_ok))))"
  note t = post_video_caption_and_title
          [of "fresh_world always_ok" example_api "JStr (str ''u'')" "str ''Hello''"
              "[str ''fyp'', str ''viral'']"]
  have e: "strip (str ''Hello'' @ str '' '' @
             join (str '' '') (map (\<lambda>tag. str ''#'' @ tag) [str ''fyp'', str ''viral''])) =
           str ''Hello #fyp #viral''"
    by (simp add: str_def strip_def isspace_def)
  have l: "take 80 (str ''Hello #fyp #viral'') = str ''Hello #fyp #viral''"
    by (simp add: str_def)
  from t have "hd ?cs \<in> set ?cs" by simp
  with t show ?thesis
    unfolding e l by (simp add: str_def)
qed

text \<open>
  The claim as stated fails for a caption that starts with whitespace:
  \<open>post_video("u", " Hello", ["fyp"])\<close> sends the caption \<open>Hello #fyp\<close>, which is
  not the caption followed by the tokens.
\<close>

theorem post_video_strips_caption_counterexample:
  "map (body_field (str ''caption''))
     (http_calls (trace (snd (post_video example_api (JStr (str ''u'')) (str '' Hello'')
                               (Some [str ''fyp'']) (fresh_world always_ok))))) =
     [Some (JStr (str ''Hello #fyp''))]
   \<and> str ''Hello #fyp'' \<noteq> str '' Hello'' @ str '' '' @ join (str '' '') [str ''#'' @ str ''fyp'']"
proof -
  have "try_outcome (backend (fresh_world always_ok) (calls (fresh_world always_ok))) = Inr (JObj [])"
    by (simp add: fresh_world_def always_ok_def ok_response_def raise_for_status_def)
  from post_video_first_ok[OF this, of example_api "JStr (str ''u'')" "str '' Hello''" "Some [str ''fyp'']"]
  have "trace (snd (post_video example_api (JStr (str ''u'')) (str '' Hello'')
                               (Some [str ''fyp'']) (fresh_world always_ok))) =
        [Http (publish_call example_api (JStr (str ''u'')) (full_caption (str '' Hello'') [str ''fyp'']))]"
    by (simp add: fresh_world_def)
  moreover have "full_caption (str '' Hello'') [str ''fyp''] = str ''Hello #fyp''"
    by (simp add: full_caption_def str_def strip_def isspace_def)
  ultimately show ?thesis
    by (simp add: publish_call_fields) (simp add: str_def)
qed

text \<open>
  Claim C8. \<open>post_video("u", "Hello", [])\<close> (and the same call with the hashtags left
  out) makes at least one attempt, and every attempt carries a body whose \<open>caption\<close> is
  exactly \<open>Hello\<close>: no trailing space, no \<open>#\<close>.
\<close>

theorem post_video_empty_hashtags:
  assumes "hashtags \<in> {None, Some []}"
  shows "http_calls (new_events w (snd (post_video self (JStr (str ''u'')) (str ''Hello'') hashtags w)))
           \<noteq> []
         \<and> (\<forall>c \<in> set (http_calls (new_events w
                (snd (post_video self (JStr (str ''u'')) (str ''Hello'') hashtags w)))).
               body_field (str ''caption'') c = Some (JStr (str ''Hello'')))
         \<and> last (str ''Hello'') \<noteq> 32 \<and> 35 \<notin> set (str ''Hello'')"
proof -
  obtain r w' where rw: "post_video self (JStr (str ''u'')) (str ''Hello'') hashtags w = (r, w')"
    by (cases "post_video self (JStr (str ''u'')) (str ''Hello'') hashtags w")
  have fc: "full_caption (str ''Hello'') (case hashtags of None \<Rightarrow> [] | Some h \<Rightarrow> h) = str ''Hello''"
    using assms by (auto simp: full_caption_def str_def strip_def isspace_def)
  from post_video_shape[OF rw] obtain evs where
    lt: "calls w < calls w'" and evs: "trace w' = trace w @ evs"
    "http_calls evs = replicate (calls w' - calls w)
        (publish_call self (JStr (str ''u'')) (str ''Hello''))"
    by (auto simp: fc)
  have ne: "new_events w w' = evs" using evs(1) by (rule new_events_append)
  have "last (str ''Hello'') \<noteq> 32 \<and> 35 \<notin> set (str ''Hello'')" by (simp add: str_def)
  then show ?thesis
    unfolding rw snd_conv using lt by (simp add: ne evs(2) publish_call_fields)
qed

theorem post_video_empty_hashtags_witness:
  "body_field (str ''caption'')
     (hd (http_calls (new_events (fresh_world fails_twice)
        (snd (post_video example_api (JStr (str ''u'')) (str ''Hello'') (Some [])
                (fresh_world fails_twice)))))) = Some (JStr (str ''Hello''))"
proof -
  let ?cs = "http_calls (new_events (fresh_world fails_twice)
        (snd (post_video example_api (JStr (str ''u'')) (str ''Hello'') (Some [])
                (fresh_world fails_twice))))"
  note t = post_video_empty_hashtags[of "Some []" "fresh_world fails_twice" example_api]
  from t have "hd ?cs \<in> set ?cs" by simp
  with t show ?thesis by simp
qed

section \<open>Claims about the service facade\<close>

text \<open>
  Claim C1, as amended. For each facade method (\<open>post_video\<close>, \<open>post_video_file\<close>,
  \<open>get_account_info\<close>) and every input: if the client call raises \<open>e\<close>, the facade
  returns a result with \<open>success = False\<close>, with \<open>error = str(e)\<close> (non-empty whenever
  that text is) and with a non-empty \<open>message\<close> that ends with \<open>str(e)\<close>; if the client
  call returns a response, the facade returns \<open>success = True\<close>, a non-empty message
  and \<open>data\<close> equal to the raw response. The facade always returns a result and adds no
  effect of its own.
\<close>

theorem facade_containment:
  "contained (post_video (api self) (JStr video_url) caption hashtags w)
             (service_post_video self video_url caption hashtags w)
   \<and> contained (post_video_file (api self) video_path caption hashtags w)
               (service_post_video_file self video_path caption hashtags w)
   \<and> contained (get_account_info (api self) w) (service_get_account_info self w)"
proof (intro conjI)
  show "contained (post_video (api self) (JStr video_url) caption hashtags w)
             (service_post_video self video_url caption hashtags w)"
    by (cases "post_video (api self) (JStr video_url) caption hashtags w")
       (auto simp: contained_def service_post_video_def split: sum.splits)
  show "contained (post_video_file (api self) video_path caption hashtags w)
               (service_post_video_file self video_path caption hashtags w)"
    by (cases "post_video_file (api self) video_path caption hashtags w")
       (auto simp: contained_def service_post_video_file_def split: sum.splits)
  show "contained (get_account_info (api self) w) (service_get_account_info self w)"
    by (cases "get_account_info (api self) w")
       (auto simp: contained_def service_get_account_info_def split: sum.splits)
qed

theorem facade_containment_witness:
  "\<not> success (fst (service_get_account_info example_service (fresh_world always_down)))
   \<and> error (fst (service_get_account_info example_service (fresh_world always_down))) =
       Some (str ''Connection refused'')
   \<and> success (fst (service_get_account_info example_service (fresh_world always_ok)))
   \<and> data (fst (service_get_account_info example_service (fresh_world always_ok))) =
       Some (JObj [])"
proof -
  have d: "fst (get_account_info example_api (fresh_world always_down)) =
             Inl (Exn ConnectionError (str ''Connection refused''))"
    by (simp add: get_account_info_def make_request_eq request_loop.simps try_request_eq
          fresh_world_def always_down_def)
  have k: "fst (get_account_info example_api (fresh_world always_ok)) = Inr (JObj [])"
    by (simp add: get_account_info_def make_request_eq request_loop.simps try_request_eq
          fresh_world_def always_ok_def ok_response_def raise_for_status_def)
  show ?thesis
    using facade_containment
            [of example_service "str ''u''" "str ''Hello''" None "fresh_world always_down"
                "str ''/tmp/clip.mp4''"]
          facade_containment
            [of example_service "str ''u''" "str ''Hello''" None "fresh_world always_ok"
                "str ''/tmp/clip.mp4''"]
          d k
    by (simp add: contained_def example_service_def)
qed

text \<open>
  The claim as stated fails where the exception has an empty text, as
  \<open>requests.exceptions.ConnectionError()\<close> has: the \<open>error\<close> string is empty.
\<close>

lemma get_account_info_silent_down:
  "fst (get_account_info example_api (fresh_world silent_down)) = Inl (Exn ConnectionError [])"
  by (simp add: get_account_info_def make_request_eq request_loop.simps try_request_eq
        fresh_world_def silent_down_def)

theorem facade_empty_error_counterexample:
  "\<not> success (fst (service_get_account_info example_service (fresh_world silent_down)))
   \<and> error (fst (service_get_account_info example_service (fresh_world silent_down))) = Some []"
proof -
  obtain w' where "get_account_info example_api (fresh_world silent_down) = (Inl (Exn ConnectionError []), w')"
    using get_account_info_silent_down
    by (cases "get_account_info example_api (fresh_world silent_down)") auto
  then show ?thesis
    by (simp add: service_get_account_info_def example_service_def)
qed

lemma init_upload_eq:
  "init_upload self video_path w =
     make_request self (str ''POST'') (str ''/post/publish/video/init'') (Some (next_addr w)) None 3
       (snd (alloc (init_data video_path) w))"
  by (simp add: init_upload_def alloc_def init_data_def)

lemma body_map_init:
  "body_map self (Some (next_addr w)) (snd (alloc (init_data p) w)) =
     init_data p @ [(str ''api_secret'', JStr (api_secret self))]"
  by (simp add: body_map_def init_data_def)

lemma init_upload_shape:
  assumes "init_upload self video_path w = (r, w')"
  shows "fs w' = fs w \<and> backend w' = backend w \<and> calls w < calls w'
         \<and> r = try_outcome (backend w (calls w' - 1))
         \<and> (\<exists>evs. trace w' = trace w @ evs
               \<and> http_calls evs = replicate (calls w' - calls w) (init_call self video_path))"
  using make_request_shape[OF _ assms[unfolded init_upload_eq]]
  by (simp add: body_map_init init_call_def)

lemma stage_init [simp]: "stage (init_call self p) = 0"
  by (simp add: stage_def init_call_def session_request_def)

lemma stage_raw [simp]: "stage (raw_call p f u) = 1"
  by (simp add: stage_def raw_call_def requests_post_def)

lemma stage_publish [simp]: "stage (publish_call self v c) = 2"
  by (simp add: stage_def publish_call_def session_request_def)

lemma upload_video_eq:
  "upload_video self video_path w =
     (case init_upload self video_path w of
        (Inl e, w2) \<Rightarrow> (Inl e, w2)
      | (Inr upload_info, w2) \<Rightarrow> after_init video_path upload_info w2)"
  by (simp add: upload_video_def after_init_def raw_call_def Let_def
           split: prod.split sum.split)

lemma after_init_shape:
  assumes "after_init video_path info w2 = (r, w')"
  shows "fs w' = fs w2 \<and> backend w' = backend w2
         \<and> trace w' = trace w2 @ Open video_path # map Http (raw_uploads video_path info w2)
         \<and> calls w' = calls w2 + length (raw_uploads video_path info w2)
         \<and> (\<forall>v. r = Inr v \<longrightarrow>
               py_get info (str ''video_url'') = Inr v \<and> raw_uploads video_path info w2 \<noteq> [])"
  using assms
  by (auto simp: after_init_def raw_uploads_def Let_def http_eq
           split: sum.splits outcome.splits option.splits)

lemma raw_uploads_elem:
  "c \<in> set (raw_uploads p info w) \<Longrightarrow> \<exists>f u. c = raw_call p f u"
  by (auto simp: raw_uploads_def split: sum.splits)

lemma length_raw_uploads: "length (raw_uploads p info w) \<le> 1"
  by (auto simp: raw_uploads_def split: sum.splits)

lemma http_calls_map_Http [simp]: "http_calls (map Http cs) = cs"
  by (induction cs) simp_all

lemma upload_video_shape:
  assumes "upload_video self video_path w = (r, w')"
  shows "fs w' = fs w \<and> backend w' = backend w \<and> calls w < calls w'
         \<and> (\<exists>evs n raw. trace w' = trace w @ evs
               \<and> http_calls evs = replicate (Suc n) (init_call self video_path) @ raw
               \<and> (\<forall>c \<in> set raw. \<exists>f u. c = raw_call video_path f u) \<and> length raw \<le> 1
               \<and> (\<forall>v. r = Inr v \<longrightarrow> raw \<noteq> [])
               \<and> (\<forall>info w2. init_upload self video_path w = (Inr info, w2) \<longrightarrow>
                     raw = raw_uploads video_path info w
                     \<and> (\<exists>evs0. evs = evs0 @ Open video_path # map Http raw)))
         \<and> (\<forall>e w2. init_upload self video_path w = (Inl e, w2) \<longrightarrow> r = Inl e \<and> w' = w2)
         \<and> (\<forall>v. r = Inr v \<longrightarrow>
               (\<exists>info w2. init_upload self video_path w = (Inr info, w2)
                   \<and> py_get info (str ''video_url'') = Inr v))"
proof -
  obtain r0 w2 where i: "init_upload self video_path w = (r0, w2)"
    by (cases "init_upload self video_path w")
  from init_upload_shape[OF i] obtain evs0 where
    f: "fs w2 = fs w" "backend w2 = backend w" and lt: "calls w < calls w2"
    and evs0: "trace w2 = trace w @ evs0"
      "http_calls evs0 = replicate (calls w2 - calls w) (init_call self video_path)"
    by auto
  obtain n where n: "calls w2 - calls w = Suc n"
    using lt by (cases "calls w2 - calls w") auto
  show ?thesis
  proof (cases r0)
    case (Inl e)
    with assms i have "r = Inl e" "w' = w2" by (simp_all add: upload_video_eq)
    with f lt evs0 n i Inl show ?thesis
      by (auto intro!: exI[of _ evs0] exI[of _ n] exI[of _ "[]"])
  next
    case (Inr info)
    with assms i have a: "after_init video_path info w2 = (r, w')"
      by (simp add: upload_video_eq)
    have ru: "raw_uploads video_path info w2 = raw_uploads video_path info w"
      using f by (simp add: raw_uploads_def)
    note s = after_init_shape[OF a, unfolded ru]
    let ?raw = "raw_uploads video_path info w"
    let ?evs = "evs0 @ Open video_path # map Http ?raw"
    have 1: "trace w' = trace w @ ?evs" using s evs0(1) by simp
    have 2: "http_calls ?evs = replicate (Suc n) (init_call self video_path) @ ?raw"
      using evs0(2) n by simp
    have 3: "\<forall>c \<in> set ?raw. \<exists>f u. c = raw_call video_path f u"
      by (simp add: raw_uploads_elem)
    have 4: "length ?raw \<le> 1" by (rule length_raw_uploads)
    have 5: "\<forall>v. r = Inr v \<longrightarrow> ?raw \<noteq> []" using s by simp
    have 6: "\<forall>info' w2'. init_upload self video_path w = (Inr info', w2') \<longrightarrow>
                     ?raw = raw_uploads video_path info' w
                     \<and> (\<exists>evs0'. ?evs = evs0' @ Open video_path # map Http ?raw)"
      using i Inr by auto
    have 7: "\<exists>evs n raw. trace w' = trace w @ evs
               \<and> http_calls evs = replicate (Suc n) (init_call self video_path) @ raw
               \<and> (\<forall>c \<in> set raw. \<exists>f u. c = raw_call video_path f u) \<and> length raw \<le> 1
               \<and> (\<forall>v. r = Inr v \<longrightarrow> raw \<noteq> [])
               \<and> (\<forall>info w2. init_upload self video_path w = (Inr info, w2) \<longrightarrow>
                     raw = raw_uploads video_path info w
                     \<and> (\<exists>evs0. evs = evs0 @ Open video_path # map Http raw))"
      using 1 2 3 4 5 6 by blast
    have 8: "fs w' = fs w \<and> backend w' = backend w \<and> calls w < calls w'"
      using s f lt by simp
    have 9: "\<forall>v. r = Inr v \<longrightarrow>
               (\<exists>info w2. init_upload self video_path w = (Inr info, w2)
                   \<and> py_get info (str ''video_url'') = Inr v)"
      using s i Inr by simp
    from 7 8 9 i Inr show ?thesis by simp
  qed
qed

lemma raw_call_bare:
  "\<not> c_session (raw_call p f u)" "c_timeout (raw_call p f u) = None"
  "c_headers (raw_call p f u) = None" "c_json (raw_call p f u) = None"
  "c_url (raw_call p f u) = u"
  by (simp_all add: raw_call_def requests_post_def)

lemma init_call_session:
  "c_session (init_call self p)" "c_timeout (init_call self p) = Some 30"
  "c_headers (init_call self p) = Some (get_headers self)"
  by (simp_all add: init_call_def session_request_def)

lemma init_upload_first_ok:
  assumes "try_outcome (backend w (calls w)) = Inr info"
  shows "init_upload self p w =
           (Inr info, attempted (init_call self p)
                        (inject self (Some (next_addr w)) (snd (alloc (init_data p) w))))"
  using make_request_first_ok[of 3 "snd (alloc (init_data p) w)" info self
          "str ''POST''" "str ''/post/publish/video/init''" "Some (next_addr w)" None] assms
  by (simp add: init_upload_eq body_map_init init_call_def)

lemma init_upload_example:
  "fst (init_upload example_api (str ''/tmp/clip.mp4'') (fresh_world upload_backend)) =
     Inr (JObj [(str ''upload_url'', JStr (str ''https://upload.example/slot'')),
                (str ''video_url'', JStr (str ''https://cdn.example/clip.mp4''))])"
  by (subst init_upload_first_ok)
     (simp_all add: fresh_world_def upload_backend_def ok_response_def raise_for_status_def)

section \<open>Claims about the upload\<close>

text \<open>
  Claim C10. In \<open>_upload_video\<close> every call through the session carries the timeout 30
  and the Transport headers (\<open>Content-Type\<close>, \<open>Authorization: Bearer key\<close>,
  \<open>X-API-Key\<close>); the raw upload of the file is a bare \<open>requests.post\<close> that is given no
  timeout and no headers, so no credentials. It is a single attempt: at most one such
  call is made, and when the init-upload response is a dict and the file opens, exactly
  one, to the \<open>upload_url\<close> of that response, and it is the last effect of the function
  whatever its outcome.
\<close>

theorem raw_upload_bare:
  "(\<forall>c \<in> set (http_calls (new_events w (snd (upload_video self video_path w)))).
       (c_session c \<longrightarrow> c_timeout c = Some 30 \<and> c_headers c = Some (get_headers self))
     \<and> (\<not> c_session c \<longrightarrow> c_timeout c = None \<and> c_headers c = None))
   \<and> length (filter (\<lambda>c. \<not> c_session c)
               (http_calls (new_events w (snd (upload_video self video_path w))))) \<le> 1
   \<and> (\<forall>info f u. fst (init_upload self video_path w) = Inr info \<and> fs w video_path = Inr f
          \<and> py_get info (str ''upload_url'') = Inr u \<longrightarrow>
        filter (\<lambda>c. \<not> c_session c)
          (http_calls (new_events w (snd (upload_video self video_path w)))) =
          [requests_post u [(str ''file'', (basename video_path, f, str ''video/mp4''))]]
        \<and> last (new_events w (snd (upload_video self video_path w))) =
          Http (requests_post u [(str ''file'', (basename video_path, f, str ''video/mp4''))]))"
proof -
  obtain r w' where rw: "upload_video self video_path w = (r, w')"
    by (cases "upload_video self video_path w")
  from upload_video_shape[OF rw] obtain evs n raw where
    evs: "trace w' = trace w @ evs"
    and hc: "http_calls evs = replicate (Suc n) (init_call self video_path) @ raw"
    and raw: "\<forall>c \<in> set raw. \<exists>f u. c = raw_call video_path f u" "length raw \<le> 1"
    and init: "\<forall>info w2. init_upload self video_path w = (Inr info, w2) \<longrightarrow>
                     raw = raw_uploads video_path info w
                     \<and> (\<exists>evs0. evs = evs0 @ Open video_path # map Http raw)"
    by (elim conjE exE) (rule that, assumption+)
  have ne: "new_events w w' = evs" using evs by (rule new_events_append)
  have fl: "filter (\<lambda>c. \<not> c_session c) (http_calls evs) = raw"
    using raw(1) unfolding hc
    by (auto simp: init_call_session raw_call_bare filter_id_conv simp del: replicate_Suc)
  have a: "\<forall>c \<in> set (http_calls evs).
       (c_session c \<longrightarrow> c_timeout c = Some 30 \<and> c_headers c = Some (get_headers self))
     \<and> (\<not> c_session c \<longrightarrow> c_timeout c = None \<and> c_headers c = None)"
    using raw(1) unfolding hc
    by (auto simp: init_call_session raw_call_bare simp del: replicate_Suc)
  have c: "filter (\<lambda>c. \<not> c_session c) (http_calls evs) =
          [requests_post u [(str ''file'', (basename video_path, f, str ''video/mp4''))]]
        \<and> last evs =
          Http (requests_post u [(str ''file'', (basename video_path, f, str ''video/mp4''))])"
    if h: "fst (init_upload self video_path w) = Inr info" "fs w video_path = Inr f"
          "py_get info (str ''upload_url'') = Inr u" for info f u
  proof -
    obtain w2 where "init_upload self video_path w = (Inr info, w2)"
      using h(1) by (cases "init_upload self video_path w") auto
    with init obtain evs0 where
      r: "raw = raw_uploads video_path info w" and e: "evs = evs0 @ Open video_path # map Http raw"
      by blast
    have "raw = [raw_call video_path f u]" using r h(2,3) by (simp add: raw_uploads_def)
    then show ?thesis using fl e by (simp add: raw_call_def)
  qed
  show ?thesis
    unfolding rw snd_conv ne using a fl raw(2) c by blast
qed

theorem raw_upload_bare_witness:
  "filter (\<lambda>c. \<not> c_session c)
     (http_calls (new_events (fresh_world upload_backend)
        (snd (upload_video example_api (str ''/tmp/clip.mp4'') (fresh_world upload_backend))))) =
     [\<lparr>c_session = False, c_method = str ''POST'',
       c_url = JStr (str ''https://upload.example/slot''),
       c_headers = None, c_json = None, c_params = None,
       c_files = Some [(str ''file'', (str ''clip.mp4'', [0, 0, 0, 24], str ''video/mp4''))],
       c_timeout = None\<rparr>]"
proof -
  have f: "fs (fresh_world upload_backend) (str ''/tmp/clip.mp4'') = Inr [0, 0, 0, 24]"
    by (simp add: fresh_world_def example_fs_def)
  have b: "basename (str ''/tmp/clip.mp4'') = str ''clip.mp4''"
    by (simp add: basename_def str_def)
  show ?thesis
    using raw_upload_bare[of "fresh_world upload_backend" example_api "str ''/tmp/clip.mp4''"]
          init_upload_example f
    by (simp add: requests_post_def b)
qed

lemma post_video_file_eq:
  "post_video_file self video_path caption hashtags w =
     (case upload_video self video_path w of
        (Inl e, w1) \<Rightarrow> (Inl e, w1)
      | (Inr v, w1) \<Rightarrow>
          post_video self v caption (Some (case hashtags of None \<Rightarrow> [] | Some h \<Rightarrow> h)) w1)"
  by (simp add: post_video_file_def)

lemma map_stage_raw:
  "\<forall>c \<in> set raw. stage c = 1 \<Longrightarrow> map stage raw = replicate (length raw) 1"
  by (induction raw) auto

lemma sorted_stages:
  "\<forall>c \<in> set raw. stage c = 1 \<Longrightarrow>
   sorted (map stage (replicate n (init_call self p) @ raw @ replicate m (publish_call self v c)))"
  by (auto simp: sorted_append map_stage_raw)

lemma stages_subset:
  "\<forall>c \<in> set raw. stage c = 1 \<Longrightarrow>
   set (map stage (replicate n (init_call self p) @ raw @ replicate m (publish_call self v c)))
     \<subseteq> {0, 1, 2}"
  by auto

lemma upload_failed_calls:
  assumes up: "upload_video self video_path w = (Inl e, w1)"
  shows "trace w1 = trace w @ new_events w w1
         \<and> sorted (map stage (http_calls (new_events w w1)))
         \<and> set (map stage (http_calls (new_events w w1))) \<subseteq> {0, 1, 2}
         \<and> 2 \<notin> set (map stage (http_calls (new_events w w1)))
         \<and> (\<forall>e'. fst (init_upload self video_path w) = Inl e' \<longrightarrow>
               init_upload self video_path w = (Inl e, w1)
               \<and> set (map stage (http_calls (new_events w w1))) = {0})"
proof -
  from upload_video_shape[OF up] obtain evs n raw where
    evs: "trace w1 = trace w @ evs"
    and hc: "http_calls evs = replicate (Suc n) (init_call self video_path) @ raw"
    and raw: "\<forall>c \<in> set raw. \<exists>f u. c = raw_call video_path f u"
    and initl: "\<forall>e' w2. init_upload self video_path w = (Inl e', w2) \<longrightarrow> Inl e = (Inl e' :: exn + json) \<and> w1 = w2"
    by (elim conjE exE) (rule that, assumption+)
  have rawst: "\<forall>c \<in> set raw. stage c = 1" using raw by auto
  have ne: "new_events w w1 = evs" using evs by (rule new_events_append)
  have hc': "http_calls evs = replicate (Suc n) (init_call self video_path) @ raw @ replicate 0 (publish_call self JNull [])"
    using hc by simp
  have so: "sorted (map stage (http_calls evs))"
    unfolding hc' using rawst by (rule sorted_stages)
  have sub: "set (map stage (http_calls evs)) \<subseteq> {0, 1, 2}"
    unfolding hc' using rawst by (rule stages_subset)
  have no2: "2 \<notin> set (map stage (http_calls evs))"
    unfolding hc using rawst by (auto simp del: replicate_Suc)
  have i0: "init_upload self video_path w = (Inl e, w1)
              \<and> set (map stage (http_calls evs)) = {0}"
    if "fst (init_upload self video_path w) = Inl e'" for e'
  proof -
    from that obtain w2 where i: "init_upload self video_path w = (Inl e', w2)"
      by (cases "init_upload self video_path w"; simp)
    with initl have eq: "e = e'" "w1 = w2" by auto
    obtain evs0 where e0: "trace w2 = trace w @ evs0"
      "http_calls evs0 = replicate (calls w2 - calls w) (init_call self video_path)"
      using init_upload_shape[OF i] by auto
    with evs eq have "evs = evs0" by simp
    with hc e0(2) have "replicate (Suc n) (init_call self video_path) @ raw =
        replicate (calls w2 - calls w) (init_call self video_path)" by simp
    then have "set (replicate (Suc n) (init_call self video_path) @ raw) =
        set (replicate (calls w2 - calls w) (init_call self video_path))" by (rule arg_cong)
    then have "set raw \<subseteq> {init_call self video_path}"
      by (auto simp: set_replicate_conv_if split: if_splits)
    with rawst have "raw = []" by (cases raw) auto
    then have "set (map stage (http_calls evs)) = {0}"
      unfolding hc by (simp del: replicate_Suc)
    with i eq show ?thesis by simp
  qed
  show ?thesis unfolding ne using evs so sub no2 i0 by simp
qed

lemma upload_done_calls:
  assumes up: "upload_video self video_path w = (Inr v, w1)"
    and pv: "post_video self v caption hashtags w1 = (r2, w2)"
  shows "trace w2 = trace w @ new_events w w2
         \<and> sorted (map stage (http_calls (new_events w w2)))
         \<and> set (map stage (http_calls (new_events w w2))) \<subseteq> {0, 1, 2}
         \<and> (\<exists>info. fst (init_upload self video_path w) = Inr info
                \<and> py_get info (str ''video_url'') = Inr v)
         \<and> (\<exists>n m f u. http_calls (new_events w w2) =
                   replicate (Suc n) (init_call self video_path) @ [raw_call video_path f u]
                   @ replicate (Suc m)
                       (publish_call self v
                          (full_caption caption (case hashtags of None \<Rightarrow> [] | Some h \<Rightarrow> h))))
         \<and> (\<forall>c \<in> set (http_calls (new_events w w2)).
               stage c = 2 \<longrightarrow> body_field (str ''video_url'') c = Some v)"
proof -
  let ?pc = "publish_call self v (full_caption caption (case hashtags of None \<Rightarrow> [] | Some h \<Rightarrow> h))"
  from upload_video_shape[OF up] obtain evs n raw where
    evs: "trace w1 = trace w @ evs"
    and hc: "http_calls evs = replicate (Suc n) (init_call self video_path) @ raw"
    and raw: "\<forall>c \<in> set raw. \<exists>f u. c = raw_call video_path f u" "length raw \<le> 1"
             "\<forall>v'. Inr v = (Inr v' :: exn + json) \<longrightarrow> raw \<noteq> []"
    and initr: "\<forall>v'. Inr v = (Inr v' :: exn + json) \<longrightarrow>
               (\<exists>info w2. init_upload self video_path w = (Inr info, w2)
                   \<and> py_get info (str ''video_url'') = Inr v')"
    by (elim conjE exE) (rule that, assumption+)
  from post_video_shape[OF pv] obtain evs2 where
    lt: "calls w1 < calls w2" and evs2: "trace w2 = trace w1 @ evs2"
    "http_calls evs2 = replicate (calls w2 - calls w1) ?pc"
    by auto
  obtain m where m: "calls w2 - calls w1 = Suc m"
    using lt by (cases "calls w2 - calls w1") auto
  have tr: "trace w2 = trace w @ (evs @ evs2)" using evs evs2(1) by simp
  have ne: "new_events w w2 = evs @ evs2" using tr by (rule new_events_append)
  have "raw \<noteq> []" using raw(3) by simp
  with raw(1,2) obtain f u where r: "raw = [raw_call video_path f u]"
    by (cases raw) auto
  have hcs: "http_calls (evs @ evs2) =
      replicate (Suc n) (init_call self video_path) @ [raw_call video_path f u]
      @ replicate (Suc m) ?pc"
    using hc evs2(2) m r by simp
  have rs: "\<forall>c \<in> set [raw_call video_path f u]. stage c = 1" by simp
  have so: "sorted (map stage (http_calls (evs @ evs2)))"
    unfolding hcs using rs by (rule sorted_stages)
  have sub: "set (map stage (http_calls (evs @ evs2))) \<subseteq> {0, 1, 2}"
    unfolding hcs using rs by (rule stages_subset)
  have vu: "\<forall>c \<in> set (http_calls (evs @ evs2)). stage c = 2 \<longrightarrow>
              body_field (str ''video_url'') c = Some v"
    unfolding hcs by (auto simp: publish_call_fields simp del: replicate_Suc)
  from initr obtain info w2' where
    "init_upload self video_path w = (Inr info, w2')" "py_get info (str ''video_url'') = Inr v"
    by auto
  then have ex: "\<exists>info. fst (init_upload self video_path w) = Inr info
                \<and> py_get info (str ''video_url'') = Inr v"
    by (intro exI[of _ info]) simp
  have seq: "\<exists>n m f u. http_calls (evs @ evs2) =
                   replicate (Suc n) (init_call self video_path) @ [raw_call video_path f u]
                   @ replicate (Suc m) ?pc"
    using hcs by (intro exI)
  show ?thesis unfolding ne
    by (intro conjI tr so sub ex seq vu)
qed

lemma upload_video_example:
  "fst (upload_video example_api (str ''/tmp/clip.mp4'') (fresh_world upload_backend)) =
     Inr (JStr (str ''https://cdn.example/clip.mp4''))"
proof -
  let ?info = "JObj [(str ''upload_url'', JStr (str ''https://upload.example/slot'')),
                     (str ''video_url'', JStr (str ''https://cdn.example/clip.mp4''))]"
  have t: "try_outcome (backend (fresh_world upload_backend) (calls (fresh_world upload_backend)))
             = Inr ?info"
    by (simp add: fresh_world_def upload_backend_def ok_response_def raise_for_status_def)
  show ?thesis
    unfolding upload_video_eq init_upload_first_ok[OF t]
    by (simp add: after_init_def http_eq fresh_world_def upload_backend_def ok_response_def
          raise_for_status_def example_fs_def)
qed

lemma upload_video_down:
  "fst (upload_video example_api (str ''/tmp/clip.mp4'') (fresh_world always_down)) =
     Inl (Exn ConnectionError (str ''Connection refused''))"
  by (simp add: upload_video_eq init_upload_eq make_request_eq request_loop.simps try_request_eq
        fresh_world_def always_down_def)

lemma after_init_cases:
  "fs w2 p = Inl e \<Longrightarrow> after_init p info w2 = (Inl e, emit (Open p) w2)"
  "fs w2 p = Inr f \<Longrightarrow> py_get info (str ''upload_url'') = Inl e \<Longrightarrow>
     after_init p info w2 = (Inl e, emit (Open p) w2)"
  "fs w2 p = Inr f \<Longrightarrow> py_get info (str ''upload_url'') = Inr u \<Longrightarrow>
   raw_failure (backend w2 (calls w2)) = Some e \<Longrightarrow>
     after_init p info w2 = (Inl e, attempted (raw_call p f u) (emit (Open p) w2))"
  "fs w2 p = Inr f \<Longrightarrow> py_get info (str ''upload_url'') = Inr u \<Longrightarrow>
   raw_failure (backend w2 (calls w2)) = None \<Longrightarrow>
   py_get info (str ''video_url'') = Inr v \<Longrightarrow>
     after_init p info w2 = (Inr v, attempted (raw_call p f u) (emit (Open p) w2))"
  by (cases "backend w2 (calls w2)";
      simp add: after_init_def Let_def http_eq split: option.splits)+

lemma init_upload_events:
  assumes "init_upload self p w = (r, w2)"
  shows "fs w2 = fs w \<and> backend w2 = backend w
         \<and> (\<exists>evs0 n. trace w2 = trace w @ evs0
               \<and> http_calls evs0 = replicate (Suc n) (init_call self p))"
proof -
  from init_upload_shape[OF assms] obtain evs0 where
    f: "fs w2 = fs w" "backend w2 = backend w" and lt: "calls w < calls w2"
    and e: "trace w2 = trace w @ evs0"
      "http_calls evs0 = replicate (calls w2 - calls w) (init_call self p)"
    by auto
  obtain n where "calls w2 - calls w = Suc n"
    using lt by (cases "calls w2 - calls w") auto
  with e have "trace w2 = trace w @ evs0 \<and> http_calls evs0 = replicate (Suc n) (init_call self p)"
    by simp
  with f show ?thesis by blast
qed

lemma upload_stops_before_raw:
  assumes i: "init_upload self p w = (Inr info, w2)"
    and a: "after_init p info w2 = (Inl e, emit (Open p) w2)"
  shows "fst (post_video_file self p caption hashtags w) = Inl e
         \<and> set (map stage (http_calls (new_events w
                 (snd (post_video_file self p caption hashtags w))))) = {0}"
proof -
  have up: "upload_video self p w = (Inl e, emit (Open p) w2)"
    using i a by (simp add: upload_video_eq)
  then have rw: "post_video_file self p caption hashtags w = (Inl e, emit (Open p) w2)"
    by (simp add: post_video_file_eq)
  from init_upload_events[OF i] obtain evs0 n where
    e: "trace w2 = trace w @ evs0" "http_calls evs0 = replicate (Suc n) (init_call self p)"
    by auto
  have "trace (emit (Open p) w2) = trace w @ (evs0 @ [Open p])" using e(1) by simp
  then have ne: "new_events w (emit (Open p) w2) = evs0 @ [Open p]"
    by (rule new_events_append)
  show ?thesis
    unfolding rw snd_conv fst_conv ne using e(2) by (simp del: replicate_Suc)
qed

lemma upload_raw_fails:
  assumes i: "init_upload self p w = (Inr info, w2)"
    and a: "after_init p info w2 = (Inl e, attempted (raw_call p f u) (emit (Open p) w2))"
  shows "fst (post_video_file self p caption hashtags w) = Inl e
         \<and> (\<exists>n. http_calls (new_events w (snd (post_video_file self p caption hashtags w))) =
                  replicate (Suc n) (init_call self p) @ [raw_call p f u])
         \<and> 2 \<notin> set (map stage (http_calls (new_events w
                 (snd (post_video_file self p caption hashtags w)))))"
proof -
  let ?w4 = "attempted (raw_call p f u) (emit (Open p) w2)"
  have up: "upload_video self p w = (Inl e, ?w4)"
    using i a by (simp add: upload_video_eq)
  then have rw: "post_video_file self p caption hashtags w = (Inl e, ?w4)"
    by (simp add: post_video_file_eq)
  from init_upload_events[OF i] obtain evs0 n where
    e: "trace w2 = trace w @ evs0" "http_calls evs0 = replicate (Suc n) (init_call self p)"
    by auto
  have "trace ?w4 = trace w @ (evs0 @ [Open p, Http (raw_call p f u)])" using e(1) by simp
  then have ne: "new_events w ?w4 = evs0 @ [Open p, Http (raw_call p f u)]"
    by (rule new_events_append)
  have cs: "http_calls (evs0 @ [Open p, Http (raw_call p f u)]) =
              replicate (Suc n) (init_call self p) @ [raw_call p f u]"
    using e(2) by simp
  have n2: "2 \<notin> set (map stage (replicate (Suc n) (init_call self p) @ [raw_call p f u]))"
    by (simp del: replicate_Suc)
  show ?thesis
    unfolding rw snd_conv fst_conv ne cs using n2 by blast
qed

lemma upload_raw_done:
  assumes i: "init_upload self p w = (Inr info, w2)"
    and a: "after_init p info w2 = (Inr v, attempted (raw_call p f u) (emit (Open p) w2))"
  shows "post_video_file self p caption hashtags w =
           post_video self v caption (Some (case hashtags of None \<Rightarrow> [] | Some h \<Rightarrow> h))
             (attempted (raw_call p f u) (emit (Open p) w2))
         \<and> (\<exists>n m. http_calls (new_events w (snd (post_video_file self p caption hashtags w))) =
                  replicate (Suc n) (init_call self p) @ [raw_call p f u]
                  @ replicate (Suc m)
                      (publish_call self v
                         (full_caption caption (case hashtags of None \<Rightarrow> [] | Some h \<Rightarrow> h))))
         \<and> (\<forall>c \<in> set (http_calls (new_events w
                  (snd (post_video_file self p caption hashtags w)))).
               stage c = 2 \<longrightarrow> body_field (str ''video_url'') c = Some v)"
proof -
  let ?tags = "Some (case hashtags of None \<Rightarrow> [] | Some h \<Rightarrow> h)"
  let ?pc = "publish_call self v (full_caption caption (case hashtags of None \<Rightarrow> [] | Some h \<Rightarrow> h))"
  let ?w4 = "attempted (raw_call p f u) (emit (Open p) w2)"
  have up: "upload_video self p w = (Inr v, ?w4)"
    using i a by (simp add: upload_video_eq)
  then have rw: "post_video_file self p caption hashtags w = post_video self v caption ?tags ?w4"
    by (simp add: post_video_file_eq)
  obtain r5 w5 where pv: "post_video self v caption ?tags ?w4 = (r5, w5)"
    by (cases "post_video self v caption ?tags ?w4")
  from init_upload_events[OF i] obtain evs0 n where
    e: "trace w2 = trace w @ evs0" "http_calls evs0 = replicate (Suc n) (init_call self p)"
    by auto
  from post_video_shape[OF pv] obtain evs2 where
    lt: "calls ?w4 < calls w5" and e2: "trace w5 = trace ?w4 @ evs2"
      "http_calls evs2 = replicate (calls w5 - calls ?w4) ?pc"
    by auto
  obtain m where m: "calls w5 - calls ?w4 = Suc m"
    using lt by (cases "calls w5 - calls ?w4") auto
  have "trace w5 = trace w @ (evs0 @ [Open p, Http (raw_call p f u)] @ evs2)"
    using e(1) e2(1) by simp
  then have ne: "new_events w w5 = evs0 @ [Open p, Http (raw_call p f u)] @ evs2"
    by (rule new_events_append)
  have cs: "http_calls (evs0 @ [Open p, Http (raw_call p f u)] @ evs2) =
              replicate (Suc n) (init_call self p) @ [raw_call p f u] @ replicate (Suc m) ?pc"
    using e(2) e2(2) m by simp
  have vu: "\<forall>c \<in> set (replicate (Suc n) (init_call self p) @ [raw_call p f u]
                          @ replicate (Suc m) ?pc).
              stage c = 2 \<longrightarrow> body_field (str ''video_url'') c = Some v"
    by (auto simp: publish_call_fields simp del: replicate_Suc)
  have sq: "\<exists>n' m'. replicate (Suc n) (init_call self p) @ [raw_call p f u] @ replicate (Suc m) ?pc =
              replicate (Suc n') (init_call self p) @ [raw_call p f u] @ replicate (Suc m') ?pc"
    by (intro exI) (rule refl)
  show ?thesis
    unfolding rw pv snd_conv ne cs using vu sq by (intro conjI) (rule refl)
qed

lemma upload_order_core:
  "let rw = post_video_file self video_path caption hashtags w;
       up = upload_video self video_path w;
       cs = http_calls (new_events w (snd rw))
   in trace (snd rw) = trace w @ new_events w (snd rw)
      \<and> sorted (map stage cs)
      \<and> set (map stage cs) \<subseteq> {0, 1, 2}
      \<and> (\<forall>e. fst (init_upload self video_path w) = Inl e \<longrightarrow>
            rw = init_upload self video_path w \<and> set (map stage cs) = {0})
      \<and> (\<forall>e. fst up = Inl e \<longrightarrow> rw = up \<and> 2 \<notin> set (map stage cs))
      \<and> (\<forall>v. fst up = Inr v \<longrightarrow>
            (\<exists>info. fst (init_upload self video_path w) = Inr info
                \<and> py_get info (str ''video_url'') = Inr v)
            \<and> rw = post_video self v caption
                     (Some (case hashtags of None \<Rightarrow> [] | Some h \<Rightarrow> h)) (snd up)
            \<and> (\<exists>n m f u. cs =
                   replicate (Suc n) (init_call self video_path) @ [raw_call video_path f u]
                   @ replicate (Suc m)
                       (publish_call self v
                          (full_caption caption (case hashtags of None \<Rightarrow> [] | Some h \<Rightarrow> h))))
            \<and> (\<forall>c \<in> set cs. stage c = 2 \<longrightarrow> body_field (str ''video_url'') c = Some v))"
proof -
  let ?tags = "case hashtags of None \<Rightarrow> [] | Some h \<Rightarrow> h"
  obtain r1 w1 where up: "upload_video self video_path w = (r1, w1)"
    by (cases "upload_video self video_path w")
  show ?thesis
  proof (cases r1)
    case (Inl e)
    with up have u: "upload_video self video_path w = (Inl e, w1)" by simp
    then have rw: "post_video_file self video_path caption hashtags w = (Inl e, w1)"
      by (simp add: post_video_file_eq)
    note f = upload_failed_calls[OF u]
    from f have i: "\<forall>e'. fst (init_upload self video_path w) = Inl e' \<longrightarrow>
               (Inl e, w1) = init_upload self video_path w
               \<and> set (map stage (http_calls (new_events w w1))) = {0}"
      by simp
    show ?thesis
      unfolding Let_def rw u snd_conv fst_conv
      using f i by simp
  next
    case (Inr v)
    with up have u: "upload_video self video_path w = (Inr v, w1)" by simp
    obtain r2 w2 where pv: "post_video self v caption (Some ?tags) w1 = (r2, w2)"
      by (cases "post_video self v caption (Some ?tags) w1")
    have rw: "post_video_file self video_path caption hashtags w = (r2, w2)"
      using u pv by (simp add: post_video_file_eq)
    note d = upload_done_calls[OF u pv]
    from d obtain info where
      info: "fst (init_upload self video_path w) = Inr info"
      by (elim conjE exE)
    then have nl: "\<forall>e. fst (init_upload self video_path w) \<noteq> Inl e" by simp
    show ?thesis
      unfolding Let_def rw u snd_conv fst_conv
      using d nl pv by simp
  qed
qed


lemma upload_order_failures:
  "let rw = post_video_file self video_path caption hashtags w;
       i = init_upload self video_path w;
       cs = http_calls (new_events w (snd rw))
   in (\<forall>info e. fst i = Inr info \<and> fs w video_path = Inl e \<longrightarrow>
            fst rw = Inl e \<and> set (map stage cs) = {0})
      \<and> (\<forall>info f e. fst i = Inr info \<and> fs w video_path = Inr f
              \<and> py_get info (str ''upload_url'') = Inl e \<longrightarrow>
            fst rw = Inl e \<and> set (map stage cs) = {0})
      \<and> (\<forall>info f u e. fst i = Inr info \<and> fs w video_path = Inr f
              \<and> py_get info (str ''upload_url'') = Inr u
              \<and> raw_failure (backend w (calls (snd i))) = Some e \<longrightarrow>
            fst rw = Inl e
            \<and> (\<exists>n. cs = replicate (Suc n) (init_call self video_path)
                        @ [raw_call video_path f u])
            \<and> 2 \<notin> set (map stage cs))
      \<and> (\<forall>info f u v. fst i = Inr info \<and> fs w video_path = Inr f
              \<and> py_get info (str ''upload_url'') = Inr u
              \<and> raw_failure (backend w (calls (snd i))) = None
              \<and> py_get info (str ''video_url'') = Inr v \<longrightarrow>
            rw = post_video self v caption
                   (Some (case hashtags of None \<Rightarrow> [] | Some h \<Rightarrow> h))
                   (attempted (raw_call video_path f u) (emit (Open video_path) (snd i)))
            \<and> (\<exists>n m. cs =
                   replicate (Suc n) (init_call self video_path) @ [raw_call video_path f u]
                   @ replicate (Suc m)
                       (publish_call self v
                          (full_caption caption (case hashtags of None \<Rightarrow> [] | Some h \<Rightarrow> h))))
            \<and> (\<forall>c \<in> set cs. stage c = 2 \<longrightarrow> body_field (str ''video_url'') c = Some v))"
proof -
  obtain r0 w2 where i: "init_upload self video_path w = (r0, w2)"
    by (cases "init_upload self video_path w")
  from init_upload_events[OF i] have env: "fs w2 = fs w" "backend w2 = backend w"
    by simp_all
  have g: "fst (post_video_file self video_path caption hashtags w) = Inl e
           \<and> set (map stage (http_calls (new_events w
                 (snd (post_video_file self video_path caption hashtags w))))) = {0}"
    if "r0 = Inr info" "fs w video_path = Inl e" for info e
  proof -
    have a: "after_init video_path info w2 = (Inl e, emit (Open video_path) w2)"
      using that env by (intro after_init_cases(1)) simp_all
    show ?thesis by (rule upload_stops_before_raw[OF i[unfolded that(1)] a])
  qed
  have h: "fst (post_video_file self video_path caption hashtags w) = Inl e
           \<and> set (map stage (http_calls (new_events w
                 (snd (post_video_file self video_path caption hashtags w))))) = {0}"
    if "r0 = Inr info" "fs w video_path = Inr f" "py_get info (str ''upload_url'') = Inl e"
    for info f e
  proof -
    have a: "after_init video_path info w2 = (Inl e, emit (Open video_path) w2)"
      using that env by (intro after_init_cases(2)[where f = f]) simp_all
    show ?thesis by (rule upload_stops_before_raw[OF i[unfolded that(1)] a])
  qed
  have k: "fst (post_video_file self video_path caption hashtags w) = Inl e
         \<and> (\<exists>n. http_calls (new_events w
                   (snd (post_video_file self video_path caption hashtags w))) =
                  replicate (Suc n) (init_call self video_path) @ [raw_call video_path f u])
         \<and> 2 \<notin> set (map stage (http_calls (new_events w
                 (snd (post_video_file self video_path caption hashtags w)))))"
    if "r0 = Inr info" "fs w video_path = Inr f" "py_get info (str ''upload_url'') = Inr u"
       "raw_failure (backend w (calls w2)) = Some e"
    for info f u e
  proof -
    have a: "after_init video_path info w2 =
               (Inl e, attempted (raw_call video_path f u) (emit (Open video_path) w2))"
      using that env by (intro after_init_cases(3)) simp_all
    show ?thesis by (rule upload_raw_fails[OF i[unfolded that(1)] a])
  qed
  have l: "post_video_file self video_path caption hashtags w =
           post_video self v caption (Some (case hashtags of None \<Rightarrow> [] | Some h \<Rightarrow> h))
             (attempted (raw_call video_path f u) (emit (Open video_path) w2))
         \<and> (\<exists>n m. http_calls (new_events w
                     (snd (post_video_file self video_path caption hashtags w))) =
                  replicate (Suc n) (init_call self video_path) @ [raw_call video_path f u]
                  @ replicate (Suc m)
                      (publish_call self v
                         (full_caption caption (case hashtags of None \<Rightarrow> [] | Some h \<Rightarrow> h))))
         \<and> (\<forall>c \<in> set (http_calls (new_events w
                  (snd (post_video_file self video_path caption hashtags w)))).
               stage c = 2 \<longrightarrow> body_field (str ''video_url'') c = Some v)"
    if "r0 = Inr info" "fs w video_path = Inr f" "py_get info (str ''upload_url'') = Inr u"
       "raw_failure (backend w (calls w2)) = None" "py_get info (str ''video_url'') = Inr v"
    for info f u v
  proof -
    have a: "after_init video_path info w2 =
               (Inr v, attempted (raw_call video_path f u) (emit (Open video_path) w2))"
      using that env by (intro after_init_cases(4)) simp_all
    show ?thesis by (rule upload_raw_done[OF i[unfolded that(1)] a])
  qed
  let ?rw = "post_video_file self video_path caption hashtags w"
  let ?cs = "http_calls (new_events w (snd ?rw))"
  have G: "\<forall>info e. r0 = Inr info \<and> fs w video_path = Inl e \<longrightarrow>
            fst ?rw = Inl e \<and> set (map stage ?cs) = {0}"
    using g by blast
  have H: "\<forall>info f e. r0 = Inr info \<and> fs w video_path = Inr f
              \<and> py_get info (str ''upload_url'') = Inl e \<longrightarrow>
            fst ?rw = Inl e \<and> set (map stage ?cs) = {0}"
    using h by blast
  have K: "\<forall>info f u e. r0 = Inr info \<and> fs w video_path = Inr f
              \<and> py_get info (str ''upload_url'') = Inr u
              \<and> raw_failure (backend w (calls w2)) = Some e \<longrightarrow>
            fst ?rw = Inl e
            \<and> (\<exists>n. ?cs = replicate (Suc n) (init_call self video_path)
                        @ [raw_call video_path f u])
            \<and> 2 \<notin> set (map stage ?cs)"
    using k by blast
  have L: "\<forall>info f u v. r0 = Inr info \<and> fs w video_path = Inr f
              \<and> py_get info (str ''upload_url'') = Inr u
              \<and> raw_failure (backend w (calls w2)) = None
              \<and> py_get info (str ''video_url'') = Inr v \<longrightarrow>
            ?rw = post_video self v caption
                   (Some (case hashtags of None \<Rightarrow> [] | Some h \<Rightarrow> h))
                   (attempted (raw_call video_path f u) (emit (Open video_path) w2))
            \<and> (\<exists>n m. ?cs =
                   replicate (Suc n) (init_call self video_path) @ [raw_call video_path f u]
                   @ replicate (Suc m)
                       (publish_call self v
                          (full_caption caption (case hashtags of None \<Rightarrow> [] | Some h \<Rightarrow> h))))
            \<and> (\<forall>c \<in> set ?cs. stage c = 2 \<longrightarrow> body_field (str ''video_url'') c = Some v)"
    using l by blast
  show ?thesis
    unfolding Let_def i fst_conv snd_conv
    by (intro conjI G H K L)
qed

lemma init_upload_refused:
  "init_upload example_api (str ''/tmp/clip.mp4'') (fresh_world upload_refused) =
     (Inr (JObj [(str ''upload_url'', JStr (str ''https://upload.example/slot'')),
                 (str ''video_url'', JStr (str ''https://cdn.example/clip.mp4''))]),
      attempted (init_call example_api (str ''/tmp/clip.mp4''))
        (inject example_api (Some (next_addr (fresh_world upload_refused)))
           (snd (alloc (init_data (str ''/tmp/clip.mp4'')) (fresh_world upload_refused)))))"
  by (rule init_upload_first_ok)
     (simp add: fresh_world_def upload_refused_def upload_backend_def ok_response_def
        raise_for_status_def)

text \<open>
  Claim C3. For every path, caption and hashtag list, the HTTP calls of
  \<open>post_video_file\<close> come in the order init-upload (stage 0), raw upload (stage 1),
  post-by-url (stage 2), and there is no other call. If the init-upload request raises,
  the operation raises that failure and only init-upload calls were made. If it answers
  and opening the file fails, or the answer is no dict, the operation raises that failure
  after the init-upload calls alone. If the raw upload fails, because \<open>requests.post\<close>
  raises or because the status is refused, the operation raises that failure, the raw
  upload is the last call and no post-by-url call is made. If the raw upload succeeds,
  the calls are the attempts of init-upload, then exactly one raw upload, then the
  attempts of post-by-url, and every post-by-url call carries as \<open>video_url\<close> the value
  of \<open>video_url\<close> in the init-upload response. The same is stated on the outcome of
  \<open>_upload_video\<close>: if it raises, the operation raises and no post-by-url call is made;
  if it returns, its value is the \<open>video_url\<close> that post-by-url is called with.
\<close>

theorem upload_then_publish_order:
  "let rw = post_video_file self video_path caption hashtags w;
       up = upload_video self video_path w;
       i = init_upload self video_path w;
       cs = http_calls (new_events w (snd rw))
   in trace (snd rw) = trace w @ new_events w (snd rw)
      \<and> sorted (map stage cs)
      \<and> set (map stage cs) \<subseteq> {0, 1, 2}
      \<and> (\<forall>e. fst (init_upload self video_path w) = Inl e \<longrightarrow>
            rw = init_upload self video_path w \<and> set (map stage cs) = {0})
      \<and> (\<forall>e. fst up = Inl e \<longrightarrow> rw = up \<and> 2 \<notin> set (map stage cs))
      \<and> (\<forall>v. fst up = Inr v \<longrightarrow>
            (\<exists>info. fst (init_upload self video_path w) = Inr info
                \<and> py_get info (str ''video_url'') = Inr v)
            \<and> rw = post_video self v caption
                     (Some (case hashtags of None \<Rightarrow> [] | Some h \<Rightarrow> h)) (snd up)
            \<and> (\<exists>n m f u. cs =
                   replicate (Suc n) (init_call self video_path) @ [raw_call video_path f u]
                   @ replicate (Suc m)
                       (publish_call self v
                          (full_caption caption (case hashtags of None \<Rightarrow> [] | Some h \<Rightarrow> h))))
            \<and> (\<forall>c \<in> set cs. stage c = 2 \<longrightarrow> body_field (str ''video_url'') c = Some v))
      \<and> (\<forall>info e. fst i = Inr info \<and> fs w video_path = Inl e \<longrightarrow>
            fst rw = Inl e \<and> set (map stage cs) = {0})
      \<and> (\<forall>info f e. fst i = Inr info \<and> fs w video_path = Inr f
              \<and> py_get info (str ''upload_url'') = Inl e \<longrightarrow>
            fst rw = Inl e \<and> set (map stage cs) = {0})
      \<and> (\<forall>info f u e. fst i = Inr info \<and> fs w video_path = Inr f
              \<and> py_get info (str ''upload_url'') = Inr u
              \<and> raw_failure (backend w (calls (snd i))) = Some e \<longrightarrow>
            fst rw = Inl e
            \<and> (\<exists>n. cs = replicate (Suc n) (init_call self video_path)
                        @ [raw_call video_path f u])
            \<and> 2 \<notin> set (map stage cs))
      \<and> (\<forall>info f u v. fst i = Inr info \<and> fs w video_path = Inr f
              \<and> py_get info (str ''upload_url'') = Inr u
              \<and> raw_failure (backend w (calls (snd i))) = None
              \<and> py_get info (str ''video_url'') = Inr v \<longrightarrow>
            rw = post_video self v caption
                   (Some (case hashtags of None \<Rightarrow> [] | Some h \<Rightarrow> h))
                   (attempted (raw_call video_path f u) (emit (Open video_path) (snd i)))
            \<and> (\<exists>n m. cs =
                   replicate (Suc n) (init_call self video_path) @ [raw_call video_path f u]
                   @ replicate (Suc m)
                       (publish_call self v
                          (full_caption caption (case hashtags of None \<Rightarrow> [] | Some h \<Rightarrow> h))))
            \<and> (\<forall>c \<in> set cs. stage c = 2 \<longrightarrow> body_field (str ''video_url'') c = Some v))"
proof -
  note c = upload_order_core
             [where self = self and video_path = video_path and caption = caption
                and hashtags = hashtags and w = w, unfolded Let_def]
  note f = upload_order_failures
             [where self = self and video_path = video_path and caption = caption
                and hashtags = hashtags and w = w, unfolded Let_def]
  note c2 = c[THEN conjunct2] note c3 = c2[THEN conjunct2] note c4 = c3[THEN conjunct2]
  note c5 = c4[THEN conjunct2] note c6 = c5[THEN conjunct2]
  note f2 = f[THEN conjunct2] note f3 = f2[THEN conjunct2] note f4 = f3[THEN conjunct2]
  show ?thesis
    unfolding Let_def
    by (intro conjI c[THEN conjunct1] c2[THEN conjunct1] c3[THEN conjunct1]
          c4[THEN conjunct1] c5[THEN conjunct1] c6 f[THEN conjunct1] f2[THEN conjunct1]
          f3[THEN conjunct1] f4)
qed

theorem upload_then_publish_order_witness:
  "body_field (str ''video_url'')
     (last (http_calls (new_events (fresh_world upload_backend)
        (snd (post_video_file example_api (str ''/tmp/clip.mp4'') (str ''Hello'')
                (Some [str ''fyp'']) (fresh_world upload_backend)))))) =
     Some (JStr (str ''https://cdn.example/clip.mp4''))
   \<and> stage (last (http_calls (new_events (fresh_world upload_backend)
        (snd (post_video_file example_api (str ''/tmp/clip.mp4'') (str ''Hello'')
                (Some [str ''fyp'']) (fresh_world upload_backend)))))) = 2
   \<and> sorted (map stage (http_calls (new_events (fresh_world upload_backend)
        (snd (post_video_file example_api (str ''/tmp/clip.mp4'') (str ''Hello'')
                (Some [str ''fyp'']) (fresh_world upload_backend))))))
   \<and> fst (post_video_file example_api (str ''/tmp/clip.mp4'') (str ''Hello'')
            (Some [str ''fyp'']) (fresh_world upload_refused)) =
       Inl (Exn HTTPError (str ''403 Client Error: Forbidden''))
   \<and> 2 \<notin> set (map stage (http_calls (new_events (fresh_world upload_refused)
        (snd (post_video_file example_api (str ''/tmp/clip.mp4'') (str ''Hello'')
                (Some [str ''fyp'']) (fresh_world upload_refused))))))
   \<and> post_video_file example_api (str ''/tmp/clip.mp4'') (str ''Hello'') (Some [str ''fyp''])
        (fresh_world always_down) =
      upload_video example_api (str ''/tmp/clip.mp4'') (fresh_world always_down)
   \<and> 2 \<notin> set (map stage (http_calls (new_events (fresh_world always_down)
        (snd (post_video_file example_api (str ''/tmp/clip.mp4'') (str ''Hello'')
                (Some [str ''fyp'']) (fresh_world always_down))))))"
proof -
  let ?cs = "http_calls (new_events (fresh_world upload_backend)
        (snd (post_video_file example_api (str ''/tmp/clip.mp4'') (str ''Hello'')
                (Some [str ''fyp'']) (fresh_world upload_backend))))"
  let ?info = "JObj [(str ''upload_url'', JStr (str ''https://upload.example/slot'')),
                     (str ''video_url'', JStr (str ''https://cdn.example/clip.mp4''))]"
  note a = upload_then_publish_order
             [of example_api "str ''/tmp/clip.mp4''" "str ''Hello''" "Some [str ''fyp'']"
                 "fresh_world upload_backend", unfolded Let_def]
  note b = upload_then_publish_order
             [of example_api "str ''/tmp/clip.mp4''" "str ''Hello''" "Some [str ''fyp'']"
                 "fresh_world always_down", unfolded Let_def]
  note c = upload_then_publish_order
             [of example_api "str ''/tmp/clip.mp4''" "str ''Hello''" "Some [str ''fyp'']"
                 "fresh_world upload_refused", unfolded Let_def]
  note so = a[THEN conjunct2, THEN conjunct1]
  note fin = a[THEN conjunct2, THEN conjunct2, THEN conjunct2, THEN conjunct2, THEN conjunct2,
                THEN conjunct1, rule_format, OF upload_video_example]
  note sq = fin[THEN conjunct2, THEN conjunct2, THEN conjunct1]
  note failed = b[THEN conjunct2, THEN conjunct2, THEN conjunct2, THEN conjunct2, THEN conjunct1,
                  rule_format, OF upload_video_down]
  have prem: "fst (init_upload example_api (str ''/tmp/clip.mp4'') (fresh_world upload_refused)) =
                Inr ?info
              \<and> fs (fresh_world upload_refused) (str ''/tmp/clip.mp4'') = Inr [0, 0, 0, 24]
              \<and> py_get ?info (str ''upload_url'') = Inr (JStr (str ''https://upload.example/slot''))
              \<and> raw_failure (backend (fresh_world upload_refused)
                    (calls (snd (init_upload example_api (str ''/tmp/clip.mp4'')
                                   (fresh_world upload_refused))))) =
                  Some (Exn HTTPError (str ''403 Client Error: Forbidden''))"
    unfolding init_upload_refused
    by (simp add: fresh_world_def example_fs_def upload_refused_def raise_for_status_def)
  note refused = c[THEN conjunct2, THEN conjunct2, THEN conjunct2, THEN conjunct2, THEN conjunct2,
                   THEN conjunct2, THEN conjunct2, THEN conjunct2, THEN conjunct1,
                   rule_format, OF prem]
  from sq obtain n m f u where
    "?cs = replicate (Suc n) (init_call example_api (str ''/tmp/clip.mp4''))
           @ [raw_call (str ''/tmp/clip.mp4'') f u]
           @ replicate (Suc m)
               (publish_call example_api (JStr (str ''https://cdn.example/clip.mp4''))
                  (full_caption (str ''Hello'') [str ''fyp'']))"
    by auto
  then have "last ?cs = publish_call example_api (JStr (str ''https://cdn.example/clip.mp4''))
                  (full_caption (str ''Hello'') [str ''fyp''])"
    by (simp del: replicate_Suc)
  then have l: "body_field (str ''video_url'') (last ?cs) =
                  Some (JStr (str ''https://cdn.example/clip.mp4''))"
    "stage (last ?cs) = 2"
    by (simp_all add: publish_call_fields)
  show ?thesis
    by (rule conjI[OF l(1) conjI[OF l(2) conjI[OF so
          conjI[OF refused[THEN conjunct1]
            conjI[OF refused[THEN conjunct2, THEN conjunct2] failed]]]]])
qed

end
